theory Spec2Isabelle
  imports Main "HOL-Library.Word" "HOL-Library.Multiset" "HOL-Library.List_Lexorder" "HOL-Library.Char_ord"
begin

section \<open>Captured route parameters\<close>

text \<open>
  \<^verbatim>\<open>type Param struct { Key string; Value string }\<close> and \<^verbatim>\<open>type Params []Param\<close>.
  A Go string is a byte sequence, as \<^typ>\<open>string\<close> is; a slice value is modelled by the list
  of its elements (a nil slice has no elements and ranges like the empty one).
\<close>

record Param =
  Key :: string
  Value :: string

type_synonym Params = "Param list"

text \<open>
  \<^verbatim>\<open>func (ps Params) ByName(name string) string\<close>: the \<^verbatim>\<open>for _, p := range ps\<close> loop
  returns from inside at the first element whose key is \<open>name\<close>; falling out of the loop
  returns the empty string.
\<close>

fun ByName :: "Params \<Rightarrow> string \<Rightarrow> string" where
  "ByName [] name = ''''"
| "ByName (p # ps) name = (if Key p = name then Value p else ByName ps name)"

text \<open>Positional retrieval \<^verbatim>\<open>ps[i]\<close>; Go panics when the index is out of range.\<close>

definition ByIndex :: "Params \<Rightarrow> nat \<Rightarrow> Param option" where
  "ByIndex ps i = (if i < length ps then Some (ps ! i) else None)"

text \<open>
  \<^verbatim>\<open>var MatchedRoutePathParam = "$matchedRoutePath"\<close>.
\<close>

abbreviation MatchedRoutePathParam :: string where
  "MatchedRoutePathParam \<equiv> ''$matchedRoutePath''"

definition MatchedRoutePath :: "Params \<Rightarrow> string" where
  "MatchedRoutePath ps = ByName ps MatchedRoutePathParam"

section \<open>Requests, response writers and the effects of a call\<close>

text \<open>
  The constants of \<^verbatim>\<open>net/http\<close> that the router uses.
\<close>

abbreviation MethodGet :: string where "MethodGet \<equiv> ''GET''"
abbreviation MethodHead :: string where "MethodHead \<equiv> ''HEAD''"
abbreviation MethodPost :: string where "MethodPost \<equiv> ''POST''"
abbreviation MethodPut :: string where "MethodPut \<equiv> ''PUT''"
abbreviation MethodPatch :: string where "MethodPatch \<equiv> ''PATCH''"
abbreviation MethodDelete :: string where "MethodDelete \<equiv> ''DELETE''"
abbreviation MethodConnect :: string where "MethodConnect \<equiv> ''CONNECT''"
abbreviation MethodOptions :: string where "MethodOptions \<equiv> ''OPTIONS''"

abbreviation StatusOK :: nat where "StatusOK \<equiv> 200"
abbreviation StatusMovedPermanently :: nat where "StatusMovedPermanently \<equiv> 301"
abbreviation StatusPermanentRedirect :: nat where "StatusPermanentRedirect \<equiv> 308"
abbreviation StatusNotFound :: nat where "StatusNotFound \<equiv> 404"
abbreviation StatusMethodNotAllowed :: nat where "StatusMethodNotAllowed \<equiv> 405"
abbreviation StatusInternalServerError :: nat where "StatusInternalServerError \<equiv> 500"

text \<open>
  \<^verbatim>\<open>http.StatusText\<close> on the codes the router passes to it; the library returns the
  empty string for a code it does not know.
\<close>

definition StatusText :: "nat \<Rightarrow> string" where
  "StatusText code =
     (if code = StatusNotFound then ''Not Found''
      else if code = StatusMethodNotAllowed then ''Method Not Allowed''
      else if code = StatusInternalServerError then ''Internal Server Error''
      else [])"

text \<open>
  The request as the router reads it: the method, the URL (the router rewrites only
  \<^verbatim>\<open>URL.Path\<close> and copies the other components), and two facts about its context: whether
  \<^verbatim>\<open>Context().Done()\<close> is closed when the router looks (the client is gone), and the value
  stored under \<^verbatim>\<open>ParamsKey\<close>.
\<close>

record url =
  Path :: string
  RawQuery :: string
  Fragment :: string

record request =
  Method :: string
  URL :: url
  ctx_done :: bool
  ctx_params :: "Params option"

text \<open>
  A response writer is a reference: middleware may hand a different writer to the next
  handler than the one it received. Writers are therefore named (\<open>wid\<close>), and what a call does
  is recorded as the list of operations it performed, each naming the writer it was applied
  to. A call ends by returning or by panicking with a value; a panic keeps the operations
  performed before it.
\<close>

type_synonym wid = nat

datatype event =
    HeaderSet wid string string
  | WriteHeader wid nat
  | HttpRedirect wid request url nat
  | HttpError wid string nat
  | GetParams
  | PutParams
  | Note string

text \<open>
  \<open>HeaderSet w k v\<close> is \<^verbatim>\<open>w.Header().Set(k, v)\<close>; \<open>HttpRedirect w req u code\<close> is
  \<^verbatim>\<open>http.Redirect(w, req, u.String(), code)\<close>, which sets \<^verbatim>\<open>Location\<close> and writes the status;
  \<open>HttpError w msg code\<close> is \<^verbatim>\<open>http.Error(w, msg, code)\<close>; \<open>GetParams\<close> and \<open>PutParams\<close> are
  a buffer taken from and handed back to the parameter pool; \<open>Note\<close> stands for whatever a
  handler written by the user does.
\<close>

type_synonym 'v outcome = "event list \<times> 'v option"

definition emit :: "event \<Rightarrow> 'v outcome" where
  "emit e = ([e], None)"

text \<open>Sequencing: the second call runs only when the first returned.\<close>

definition seq :: "'v outcome \<Rightarrow> 'v outcome \<Rightarrow> 'v outcome" where
  "seq a b =
     (case a of
        (es, Some v) \<Rightarrow> (es, Some v)
      | (es, None) \<Rightarrow> (case b of (es', p) \<Rightarrow> (es @ es', p)))"

text \<open>
  \<^verbatim>\<open>http.Handler\<close>, \<^verbatim>\<open>Handle\<close>, \<^verbatim>\<open>Middleware\<close>, \<^verbatim>\<open>RecoveryHandlerFunc\<close> and
  \<^verbatim>\<open>ErrorHandlerFunc\<close>. The \<^verbatim>\<open>Params\<close> argument of a \<^verbatim>\<open>Handle\<close> may be the nil slice
  (\<open>None\<close>), which \<^verbatim>\<open>saveMatchedRoutePath\<close> tells apart from an empty one.
\<close>

type_synonym 'v Handler = "wid \<Rightarrow> request \<Rightarrow> 'v outcome"
type_synonym 'v Handle = "wid \<Rightarrow> request \<Rightarrow> Params option \<Rightarrow> 'v outcome"
type_synonym 'v Middleware = "'v Handler \<Rightarrow> 'v Handler"
type_synonym 'v RecoveryHandlerFunc = "wid \<Rightarrow> request \<Rightarrow> 'v \<Rightarrow> 'v outcome"
type_synonym 'v ErrorHandlerFunc = "wid \<Rightarrow> request \<Rightarrow> nat \<Rightarrow> 'v outcome"

text \<open>
  \<^verbatim>\<open>defaultErrorHandler\<close>: nothing when the request's context is done, \<^verbatim>\<open>http.Error\<close> with
  the status text otherwise.
\<close>

definition defaultErrorHandler :: "'v ErrorHandlerFunc" where
  "defaultErrorHandler w r statusCode =
     (if ctx_done r then ([], None)
      else emit (HttpError w (StatusText statusCode) statusCode))"

section \<open>The router\<close>

text \<open>
  A slice of \<^verbatim>\<open>Param\<close> with its capacity (its length is the length of \<open>elems\<close>), and the
  \<^verbatim>\<open>sync.Pool\<close> of such buffers: the buffers it holds, and whether its \<^verbatim>\<open>New\<close> function has
  been set. The only function ever assigned to \<^verbatim>\<open>New\<close> is the closure of \<^verbatim>\<open>Handle\<close> that
  allocates \<^verbatim>\<open>make(Params, 0, r.maxParams)\<close>, reading \<^verbatim>\<open>r.maxParams\<close> when it is called.
\<close>

record slice =
  elems :: Params
  cap :: nat

record Pool =
  pool_items :: "slice list"
  pool_New :: bool

text \<open>
  \<^verbatim>\<open>type Router struct\<close>. The per-method trees are a Go map from method to root node:
  an association list with distinct keys, whose order stands for the order in which
  \<^verbatim>\<open>range\<close> happens to visit the map. The node type \<open>'n\<close> is that of the trie, \<open>'v\<close> is the type
  of panic values, \<open>'fs\<close> that of \<^verbatim>\<open>http.FileSystem\<close>.
\<close>

record ('n, 'v, 'fs) Router =
  trees :: "(string \<times> 'n) list"
  paramsPool :: Pool
  maxParams :: "16 word"
  Middlewares :: "'v Middleware list"
  SaveMatchedRoutePath :: bool
  RedirectTrailingSlash :: bool
  RedirectFixedPath :: bool
  HandleMethodNotAllowed :: bool
  HandleOPTIONS :: bool
  GlobalOPTIONS :: "'v Handler option"
  globalAllowed :: string
  NotFound :: "'v Handler option"
  MethodNotAllowed :: "'v Handler option"
  RecoveryHandler :: "'v RecoveryHandlerFunc option"
  FileSystemForUnmatched :: "'fs option"
  ServeUnmatchedAsStatic :: bool
  errorHandler :: "'v ErrorHandlerFunc option"
  isDefaultErrorHandlerUsed :: bool

text \<open>
  \<^verbatim>\<open>func New() *Router\<close>: the four policies enabled, no middleware, the default error
  handler; every other field has Go's zero value.
\<close>

definition New :: "('n, 'v, 'fs) Router" where
  "New = \<lparr> trees = [], paramsPool = \<lparr>pool_items = [], pool_New = False\<rparr>, maxParams = 0,
           Middlewares = [], SaveMatchedRoutePath = False, RedirectTrailingSlash = True,
           RedirectFixedPath = True, HandleMethodNotAllowed = True, HandleOPTIONS = True,
           GlobalOPTIONS = None, globalAllowed = [], NotFound = None,
           MethodNotAllowed = None, RecoveryHandler = None, FileSystemForUnmatched = None,
           ServeUnmatchedAsStatic = False, errorHandler = Some defaultErrorHandler,
           isDefaultErrorHandlerUsed = True \<rparr>"

text \<open>
  What the router calls and this repository's sources do not contain: the trie
  (\<^verbatim>\<open>new(node)\<close>, \<^verbatim>\<open>addRoute\<close>, \<^verbatim>\<open>getValue\<close>, \<^verbatim>\<open>findCaseInsensitivePath\<close>,
  \<^verbatim>\<open>countParams\<close>), \<^verbatim>\<open>CleanPath\<close>, and the file server of \<^verbatim>\<open>net/http\<close>. They are
  parameters of the model, with the signatures the router uses:
  \<^item> \<open>addRoute n path h\<close> is the node after the insertion, with the panic message when the
    insertion panicked (the node is mutated in place, so it has a state also then);
  \<^item> \<open>getValue n path pool\<close> is the handle (or nil), the pointer to the captured parameters
    (nil, or a buffer obtained through the callback it was given) and the trailing-slash
    recommendation; \<open>pool\<close> tells whether the callback was \<^verbatim>\<open>r.getParams\<close> or nil;
  \<^item> \<open>FileServer fs\<close> is \<^verbatim>\<open>http.FileServer(fs).ServeHTTP\<close> on a plain writer, and
    \<open>FileServerCapturing fs eh\<close> is the same call made through the error-capturing writer
    built around the writer with the error handler \<open>eh\<close>, followed by that writer's
    \<^verbatim>\<open>processAfterFileServer\<close>.
\<close>

record ('n, 'v, 'fs) externals =
  new_node :: 'n
  addRoute :: "'n \<Rightarrow> string \<Rightarrow> 'v Handle \<Rightarrow> string option \<times> 'n"
  getValue :: "'n \<Rightarrow> string \<Rightarrow> bool \<Rightarrow> 'v Handle option \<times> Params option \<times> bool"
  findCaseInsensitivePath :: "'n \<Rightarrow> string \<Rightarrow> bool \<Rightarrow> string \<times> bool"
  countParams :: "string \<Rightarrow> 16 word"
  CleanPath :: "string \<Rightarrow> string"
  FileServer :: "'fs \<Rightarrow> 'v Handler"
  FileServerCapturing :: "'fs \<Rightarrow> 'v ErrorHandlerFunc option \<Rightarrow> 'v Handler"

section \<open>The Allow header\<close>

text \<open>
  The sort written out in \<^verbatim>\<open>allowed\<close>:
  \<^verbatim>\<open>for i, l := 1, len(a); i < l; i++ { for j := i; j > 0 && a[j] < a[j-1]; j-- { swap } }\<close>.
  Go compares strings byte by byte, which is the lexicographic order of \<^typ>\<open>string\<close> here.
  \<open>sort_inner a j\<close> is the inner loop entered with index \<open>j\<close>, \<open>sort_outer i l a\<close> the outer
  loop entered with index \<open>i\<close>.
\<close>

fun sort_inner :: "string list \<Rightarrow> nat \<Rightarrow> string list" where
  "sort_inner a 0 = a"
| "sort_inner a (Suc j) =
     (if a ! Suc j < a ! j then sort_inner (a[Suc j := a ! j, j := a ! Suc j]) j else a)"

function sort_outer :: "nat \<Rightarrow> nat \<Rightarrow> string list \<Rightarrow> string list" where
  "sort_outer i l a = (if i < l then sort_outer (Suc i) l (sort_inner a i) else a)"
  by pat_completeness auto
termination
  by (relation "measure (\<lambda>(i, l, a). l - i)") auto

declare sort_outer.simps [simp del]

definition sort_methods :: "string list \<Rightarrow> string list" where
  "sort_methods a = sort_outer 1 (length a) a"

text \<open>\<^verbatim>\<open>strings.Join(elems, sep)\<close>.\<close>

fun Join :: "string list \<Rightarrow> string \<Rightarrow> string" where
  "Join [] sep = []"
| "Join [x] sep = x"
| "Join (x # y # ys) sep = x @ sep @ Join (y # ys) sep"

text \<open>
  The two \<^verbatim>\<open>range r.trees\<close> loops of \<^verbatim>\<open>allowed\<close>, each appending to \<^verbatim>\<open>allowedMethods\<close>:
  the server-wide one skips only OPTIONS, the one for a path skips the request's method and
  OPTIONS and keeps a method when its tree has a handle for the path
  (\<^verbatim>\<open>r.trees[method].getValue(path, nil)\<close>).
\<close>

fun allowed_all :: "(string \<times> 'n) list \<Rightarrow> string list \<Rightarrow> string list" where
  "allowed_all [] allowedMethods = allowedMethods"
| "allowed_all ((method, n) # ts) allowedMethods =
     (if method = MethodOptions then allowed_all ts allowedMethods
      else allowed_all ts (allowedMethods @ [method]))"

fun allowed_at :: "('n, 'v, 'fs) externals \<Rightarrow> string \<Rightarrow> string \<Rightarrow> (string \<times> 'n) list \<Rightarrow>
    string list \<Rightarrow> string list" where
  "allowed_at ext path reqMethod [] allowedMethods = allowedMethods"
| "allowed_at ext path reqMethod ((method, n) # ts) allowedMethods =
     (if method = reqMethod \<or> method = MethodOptions
      then allowed_at ext path reqMethod ts allowedMethods
      else (case getValue ext n path False of
              (Some handle, _, _) \<Rightarrow> allowed_at ext path reqMethod ts (allowedMethods @ [method])
            | (None, _, _) \<Rightarrow> allowed_at ext path reqMethod ts allowedMethods))"

text \<open>The tail of \<^verbatim>\<open>allowed\<close>, from \<^verbatim>\<open>if len(allowedMethods) > 0\<close> on.\<close>

definition allowed_join :: "('n, 'v, 'fs) Router \<Rightarrow> string list \<Rightarrow> string" where
  "allowed_join r allowedMethods =
     (if length allowedMethods > 0
      then Join (sort_methods (if HandleOPTIONS r then allowedMethods @ [MethodOptions]
                               else allowedMethods)) '', ''
      else [])"

definition allowed :: "('n, 'v, 'fs) externals \<Rightarrow> ('n, 'v, 'fs) Router \<Rightarrow> string \<Rightarrow> string \<Rightarrow> string"
  where
  "allowed ext r path reqMethod =
     (if path = ''*'' then
        (if reqMethod = [] then allowed_join r (allowed_all (trees r) [])
         else globalAllowed r)
      else allowed_join r (allowed_at ext path reqMethod (trees r) []))"

section \<open>The parameter pool\<close>

text \<open>
  \<^verbatim>\<open>sync.Pool.Get\<close> hands out any buffer the pool holds and removes it, and may as well treat
  the pool as empty; when it has nothing to hand out it calls \<^verbatim>\<open>New\<close> if that is set and
  returns nil otherwise. The choice is the argument \<open>pick\<close>: \<open>Some i\<close> takes the pooled
  buffer at position \<open>i\<close>, anything else treats the pool as empty.
\<close>

definition pool_Get :: "nat option \<Rightarrow> ('n, 'v, 'fs) Router \<Rightarrow> slice option \<times> ('n, 'v, 'fs) Router"
  where
  "pool_Get pick r =
     (let its = pool_items (paramsPool r);
          fresh = (if pool_New (paramsPool r)
                   then Some \<lparr>elems = [], cap = unat (maxParams r)\<rparr> else None)
      in case pick of
           None \<Rightarrow> (fresh, r)
         | Some i \<Rightarrow>
             if i < length its
             then (Some (its ! i),
                   r\<lparr>paramsPool := (paramsPool r)\<lparr>pool_items := take i its @ drop (Suc i) its\<rparr>\<rparr>)
             else (fresh, r))"

text \<open>
  \<^verbatim>\<open>getParams\<close>: \<^verbatim>\<open>ps, _ := r.paramsPool.Get().(*Params); *ps = (*ps)[0:0]; return ps\<close>.
  When the pool returns nil, \<^verbatim>\<open>ps\<close> is nil and the assignment through it panics (\<open>None\<close>).
  Reslicing to \<^verbatim>\<open>[0:0]\<close> keeps the capacity.
\<close>

definition getParams :: "nat option \<Rightarrow> ('n, 'v, 'fs) Router \<Rightarrow> (slice \<times> ('n, 'v, 'fs) Router) option"
  where
  "getParams pick r =
     (case pool_Get pick r of
        (None, r') \<Rightarrow> None
      | (Some ps, r') \<Rightarrow> Some (ps\<lparr>elems := []\<rparr>, r'))"

definition putParams :: "slice option \<Rightarrow> ('n, 'v, 'fs) Router \<Rightarrow> ('n, 'v, 'fs) Router" where
  "putParams ps r =
     (case ps of
        None \<Rightarrow> r
      | Some b \<Rightarrow> r\<lparr>paramsPool := (paramsPool r)\<lparr>pool_items := b # pool_items (paramsPool r)\<rparr>\<rparr>)"

section \<open>Registration\<close>

text \<open>
  The closure returned by \<^verbatim>\<open>saveMatchedRoutePath\<close>. With nil parameters it takes a buffer
  from the pool, makes it the one-element slice holding the matched path, calls the handle
  and hands the buffer back when the handle returned; otherwise it appends the matched path
  to the parameters it was given. The buffer is overwritten before it is read, so only the
  two calls on the pool are recorded.
\<close>

definition saveMatchedRoutePath :: "string \<Rightarrow> 'v Handle \<Rightarrow> 'v Handle" where
  "saveMatchedRoutePath path handle = (\<lambda>w req ps.
     case ps of
       None \<Rightarrow>
         seq (emit GetParams)
           (seq (handle w req (Some [\<lparr>Key = MatchedRoutePathParam, Value = path\<rparr>]))
                (emit PutParams))
     | Some given \<Rightarrow>
         handle w req (Some (given @ [\<lparr>Key = MatchedRoutePathParam, Value = path\<rparr>])))"

text \<open>\<^verbatim>\<open>r.trees[method] = root\<close>, and the same entry seen again after the node was mutated.\<close>

fun set_tree :: "string \<Rightarrow> 'n \<Rightarrow> (string \<times> 'n) list \<Rightarrow> (string \<times> 'n) list" where
  "set_tree method root [] = [(method, root)]"
| "set_tree method root ((k, n) # ts) =
     (if k = method then (k, root) # ts else (k, n) # set_tree method root ts)"

text \<open>
  A panic of \<^verbatim>\<open>Handle\<close> is raised either by one of its own three checks, with the message
  of the check, or inside \<^verbatim>\<open>addRoute\<close>.
\<close>

datatype Handle_panic = HandlePanic string | AddRoutePanic string

abbreviation apostrophe :: char where
  "apostrophe \<equiv> CHR 0x27"

text \<open>
  The end of \<^verbatim>\<open>Handle\<close>: \<^verbatim>\<open>maxParams\<close> is raised to \<^verbatim>\<open>countParams(path) + varsCount\<close>
  (16-bit unsigned arithmetic) when that is larger, and the pool's \<^verbatim>\<open>New\<close> is set once
  \<^verbatim>\<open>maxParams\<close> is positive.
\<close>

definition Handle_maxParams :: "('n, 'v, 'fs) externals \<Rightarrow> string \<Rightarrow> 16 word \<Rightarrow>
    ('n, 'v, 'fs) Router \<Rightarrow> ('n, 'v, 'fs) Router" where
  "Handle_maxParams ext path varsCount r =
     (let paramsCount = countParams ext path;
          r' = (if paramsCount + varsCount > maxParams r
                then r\<lparr>maxParams := paramsCount + varsCount\<rparr> else r)
      in if \<not> pool_New (paramsPool r') \<and> maxParams r' > 0
         then r'\<lparr>paramsPool := (paramsPool r')\<lparr>pool_New := True\<rparr>\<rparr>
         else r')"

text \<open>
  The block of \<^verbatim>\<open>Handle\<close> that finds the root of the method's tree: when the method has no
  tree yet, a new node is stored under it and \<^verbatim>\<open>r.globalAllowed = r.allowed("*", "")\<close> is
  refreshed. The result is the root and the router after the block.
\<close>

definition method_root :: "('n, 'v, 'fs) externals \<Rightarrow> ('n, 'v, 'fs) Router \<Rightarrow> string \<Rightarrow>
    'n \<times> ('n, 'v, 'fs) Router" where
  "method_root ext r method =
     (case map_of (trees r) method of
        Some root \<Rightarrow> (root, r)
      | None \<Rightarrow>
          (let r0 = r\<lparr>trees := set_tree method (new_node ext) (trees r)\<rparr>
           in (new_node ext, r0\<lparr>globalAllowed := allowed ext r0 ''*'' []\<rparr>)))"

text \<open>
  \<^verbatim>\<open>func (r *Router) Handle(method, path string, handle Handle)\<close>. The result is the panic, if
  any, and the router as the call left it: a failed check leaves it untouched, a panic in
  \<^verbatim>\<open>addRoute\<close> comes after a new method's tree was stored and the cache refreshed.
\<close>

definition Handle :: "('n, 'v, 'fs) externals \<Rightarrow> ('n, 'v, 'fs) Router \<Rightarrow> string \<Rightarrow> string \<Rightarrow>
    'v Handle option \<Rightarrow> Handle_panic option \<times> ('n, 'v, 'fs) Router" where
  "Handle ext r method path handle =
     (if method = [] then (Some (HandlePanic ''method must not be empty''), r)
      else if length path < 1 \<or> path ! 0 \<noteq> CHR ''/''
      then (Some (HandlePanic (''path must begin with '' @ [apostrophe] @ ''/'' @ [apostrophe]
                    @ '' in path '' @ [apostrophe] @ path @ [apostrophe])), r)
      else case handle of
        None \<Rightarrow> (Some (HandlePanic ''handle must not be nil''), r)
      | Some h \<Rightarrow>
         (let varsCount = (if SaveMatchedRoutePath r then 1 else 0);
              handle' = (if SaveMatchedRoutePath r then saveMatchedRoutePath path h else h)
          in case method_root ext r method of
               (root, r1) \<Rightarrow>
                 (case addRoute ext root path handle' of
                    (Some msg, root') \<Rightarrow>
                      (Some (AddRoutePanic msg), r1\<lparr>trees := set_tree method root' (trees r1)\<rparr>)
                  | (None, root') \<Rightarrow>
                      (None, Handle_maxParams ext path varsCount
                               (r1\<lparr>trees := set_tree method root' (trees r1)\<rparr>)))))"

section \<open>Middleware\<close>

text \<open>\<^verbatim>\<open>func (r *Router) Use(middleware ...Middleware)\<close> appends to \<^verbatim>\<open>r.Middlewares\<close>.\<close>

definition Use :: "('n, 'v, 'fs) Router \<Rightarrow> 'v Middleware list \<Rightarrow> ('n, 'v, 'fs) Router" where
  "Use r middleware = r\<lparr>Middlewares := Middlewares r @ middleware\<rparr>"

text \<open>
  \<^verbatim>\<open>applyMiddleware\<close>: \<^verbatim>\<open>for i := len(r.Middlewares) - 1; i >= 0; i-- { current =
  r.Middlewares[i](current) }\<close>. The loop counter \<open>k\<close> is \<^verbatim>\<open>i + 1\<close>, so that the exit at
  \<^verbatim>\<open>i = -1\<close> is \<open>k = 0\<close>.
\<close>

fun applyMiddleware_loop :: "'v Middleware list \<Rightarrow> nat \<Rightarrow> 'v Handler \<Rightarrow> 'v Handler" where
  "applyMiddleware_loop ms 0 current = current"
| "applyMiddleware_loop ms (Suc i) current = applyMiddleware_loop ms i ((ms ! i) current)"

definition applyMiddleware :: "('n, 'v, 'fs) Router \<Rightarrow> 'v Handler \<Rightarrow> 'v Handler" where
  "applyMiddleware r handler =
     applyMiddleware_loop (Middlewares r) (length (Middlewares r)) handler"

section \<open>The request entry point\<close>

text \<open>
  \<^verbatim>\<open>func (r *Router) recv(w, req)\<close>: \<open>rcv\<close> is what the \<^verbatim>\<open>recover()\<close> in its first line
  returns, and nothing happens when that is nil. Otherwise, with a request whose context is
  done the recovery handler is still called when there is one, and nothing else is written;
  else the recovery handler, or the error handler, or \<^verbatim>\<open>defaultErrorHandler\<close>, the last two
  with status 500. The outcome of \<open>recv\<close> is that of the handler it calls.
\<close>

definition recv :: "('n, 'v, 'fs) Router \<Rightarrow> wid \<Rightarrow> request \<Rightarrow> 'v option \<Rightarrow> 'v outcome" where
  "recv r w req rcv =
     (case rcv of
        None \<Rightarrow> ([], None)
      | Some v \<Rightarrow>
          if ctx_done req then
            (case RecoveryHandler r of
               Some recover \<Rightarrow> recover w req v
             | None \<Rightarrow> ([], None))
          else
            (case RecoveryHandler r of
               Some recover \<Rightarrow> recover w req v
             | None \<Rightarrow>
                 (case errorHandler r of
                    Some eh \<Rightarrow> eh w req StatusInternalServerError
                  | None \<Rightarrow> defaultErrorHandler w req StatusInternalServerError)))"

text \<open>
  The blocks of \<^verbatim>\<open>coreRoutingAndHandling\<close>. \<open>invokeHandle\<close>: the parameters are nil when
  \<^verbatim>\<open>psPtr\<close> is; a non-empty capture is also stored in the request's context; then the handle
  is called.
\<close>

definition invokeHandle :: "'v Handle \<Rightarrow> Params option \<Rightarrow> 'v Handler" where
  "invokeHandle handle psPtr writer request =
     (let params = psPtr;
          request' = (if (case params of None \<Rightarrow> 0 | Some ps \<Rightarrow> length ps) > 0
                      then request\<lparr>ctx_params := params\<rparr> else request)
      in handle writer request' params)"

text \<open>
  \<^verbatim>\<open>code := http.StatusMovedPermanently; if request.Method != http.MethodGet { code =
  http.StatusPermanentRedirect }\<close>.
\<close>

definition redirectCode :: "request \<Rightarrow> nat" where
  "redirectCode request =
     (if Method request \<noteq> MethodGet then StatusPermanentRedirect else StatusMovedPermanently)"

text \<open>The path of the trailing-slash redirect: the slash removed when there is one, added otherwise.\<close>

definition toggleTrailingSlash :: "string \<Rightarrow> string" where
  "toggleTrailingSlash currentPath =
     (if length currentPath > 1 \<and> currentPath ! (length currentPath - 1) = CHR ''/''
      then take (length currentPath - 1) currentPath
      else currentPath @ ''/'')"

text \<open>
  \<^verbatim>\<open>redirectURL := *request.URL; redirectURL.Path = path; http.Redirect(writer, request,
  redirectURL.String(), code)\<close>.
\<close>

definition redirect :: "string \<Rightarrow> nat \<Rightarrow> 'v Handler" where
  "redirect path code writer request =
     emit (HttpRedirect writer request ((URL request)\<lparr>Path := path\<rparr>) code)"

text \<open>The reply to an automatic OPTIONS request and the reply 405, each after the Allow header.\<close>

definition replyOptions :: "('n, 'v, 'fs) Router \<Rightarrow> string \<Rightarrow> 'v Handler" where
  "replyOptions r allow writer request =
     seq (emit (HeaderSet writer ''Allow'' allow))
       (case GlobalOPTIONS r of
          Some h \<Rightarrow> h writer request
        | None \<Rightarrow> emit (WriteHeader writer StatusOK))"

definition replyMethodNotAllowed :: "('n, 'v, 'fs) Router \<Rightarrow> string \<Rightarrow> 'v Handler" where
  "replyMethodNotAllowed r allow writer request =
     seq (emit (HeaderSet writer ''Allow'' allow))
       (case MethodNotAllowed r of
          Some h \<Rightarrow> h writer request
        | None \<Rightarrow>
            (case errorHandler r of
               Some eh \<Rightarrow> eh writer request StatusMethodNotAllowed
             | None \<Rightarrow> defaultErrorHandler writer request StatusMethodNotAllowed))"

text \<open>
  The end of the function: the static files when they are configured (through the
  error-capturing writer when the error handler is not the default one), else the not-found
  handler, the error handler or \<^verbatim>\<open>defaultErrorHandler\<close> with status 404.
\<close>

definition serveUnmatched :: "('n, 'v, 'fs) externals \<Rightarrow> ('n, 'v, 'fs) Router \<Rightarrow> 'v Handler" where
  "serveUnmatched ext r writer request =
     (case (if ServeUnmatchedAsStatic r then FileSystemForUnmatched r else None) of
        Some fs \<Rightarrow>
          if \<not> isDefaultErrorHandlerUsed r
          then FileServerCapturing ext fs (errorHandler r) writer request
          else FileServer ext fs writer request
      | None \<Rightarrow>
          (case NotFound r of
             Some h \<Rightarrow> h writer request
           | None \<Rightarrow>
               (case errorHandler r of
                  Some eh \<Rightarrow> eh writer request StatusNotFound
                | None \<Rightarrow> defaultErrorHandler writer request StatusNotFound)))"

text \<open>
  What follows the lookup block: \<^verbatim>\<open>if request.Method == http.MethodOptions &&
  r.HandleOPTIONS { ... } else if r.HandleMethodNotAllowed { ... }\<close>, each returning when the
  Allow string is not empty, and the end of the function otherwise.
\<close>

definition optionsOrNotAllowed :: "('n, 'v, 'fs) externals \<Rightarrow> ('n, 'v, 'fs) Router \<Rightarrow> 'v Handler"
  where
  "optionsOrNotAllowed ext r writer request =
     (let currentPath = Path (URL request) in
      if Method request = MethodOptions \<and> HandleOPTIONS r then
        (let allow = allowed ext r currentPath MethodOptions in
         if allow \<noteq> [] then replyOptions r allow writer request
         else serveUnmatched ext r writer request)
      else if HandleMethodNotAllowed r then
        (let allow = allowed ext r currentPath (Method request) in
         if allow \<noteq> [] then replyMethodNotAllowed r allow writer request
         else serveUnmatched ext r writer request)
      else serveUnmatched ext r writer request)"

text \<open>
  The body of \<^verbatim>\<open>coreRoutingAndHandling\<close> without its deferred calls: the lookup in the tree
  of the request's method, the handle when there is one, else the two redirects unless the
  method is CONNECT or the path is \<^verbatim>\<open>/\<close>, and in every case that did not return the blocks
  above.
\<close>

definition routeRequest :: "('n, 'v, 'fs) externals \<Rightarrow> ('n, 'v, 'fs) Router \<Rightarrow> 'v Handler" where
  "routeRequest ext r writer request =
     (let currentPath = Path (URL request) in
      case map_of (trees r) (Method request) of
        None \<Rightarrow> optionsOrNotAllowed ext r writer request
      | Some root \<Rightarrow>
          (case getValue ext root currentPath True of
             (Some handle, psPtr, tsr) \<Rightarrow> invokeHandle handle psPtr writer request
           | (None, psPtr, tsr) \<Rightarrow>
               if Method request \<noteq> MethodConnect \<and> currentPath \<noteq> ''/'' then
                 (let code = redirectCode request in
                  if tsr \<and> RedirectTrailingSlash r
                  then redirect (toggleTrailingSlash currentPath) code writer request
                  else if RedirectFixedPath r then
                    (case findCaseInsensitivePath ext root (CleanPath ext currentPath)
                            (RedirectTrailingSlash r) of
                       (fixedPath, True) \<Rightarrow> redirect fixedPath code writer request
                     | (fixedPath, False) \<Rightarrow> optionsOrNotAllowed ext r writer request)
                  else optionsOrNotAllowed ext r writer request)
               else optionsOrNotAllowed ext r writer request))"

text \<open>
  The pointer \<^verbatim>\<open>psPtr\<close> the lookup returned, for which \<^verbatim>\<open>r.putParams\<close> is deferred when it is
  not nil.
\<close>

definition lookupParams :: "('n, 'v, 'fs) externals \<Rightarrow> ('n, 'v, 'fs) Router \<Rightarrow> request \<Rightarrow>
    Params option" where
  "lookupParams ext r request =
     (case map_of (trees r) (Method request) of
        None \<Rightarrow> None
      | Some root \<Rightarrow> fst (snd (getValue ext root (Path (URL request)) True)))"

text \<open>
  \<^verbatim>\<open>coreRoutingAndHandling\<close>, the innermost handler of the chain. \<open>w\<close> and \<open>req\<close> are the
  arguments of \<^verbatim>\<open>ServeHTTP\<close>, \<open>writer\<close> and \<open>request\<close> what the middleware passed on. The
  deferred calls run when the body returned or panicked, the last deferred first:
  \<^verbatim>\<open>r.putParams(psPtr)\<close>, then the closure \<^verbatim>\<open>func() { r.recv(w, req) }\<close>. In Go
  \<^verbatim>\<open>recover()\<close> returns nil unless the deferred function itself calls it; here the deferred
  function is the closure and \<^verbatim>\<open>recover()\<close> is called one call deeper, in \<open>recv\<close>. So \<open>recv\<close>
  sees nil whether or not the body panicked, and a panic of the body goes on after the
  deferred calls.
\<close>

definition coreRoutingAndHandling :: "('n, 'v, 'fs) externals \<Rightarrow> ('n, 'v, 'fs) Router \<Rightarrow> wid \<Rightarrow>
    request \<Rightarrow> 'v Handler" where
  "coreRoutingAndHandling ext r w req writer request =
     (case routeRequest ext r writer request of
        (es, p) \<Rightarrow>
          (let released = (if lookupParams ext r request \<noteq> None then [PutParams] else []);
               rcv = None
           in case recv r w req rcv of
                (es', p') \<Rightarrow> (es @ released @ es', (case p' of Some v \<Rightarrow> Some v | None \<Rightarrow> p))))"

text \<open>
  \<^verbatim>\<open>func (r *Router) ServeHTTP(w, req)\<close>: \<^verbatim>\<open>r.applyMiddleware(coreRoutingAndHandling)
  .ServeHTTP(w, req)\<close>.
\<close>

definition ServeHTTP :: "('n, 'v, 'fs) externals \<Rightarrow> ('n, 'v, 'fs) Router \<Rightarrow> 'v Handler" where
  "ServeHTTP ext r w req = applyMiddleware r (coreRoutingAndHandling ext r w req) w req"

section \<open>The properties in the words of the specification\<close>

text \<open>
  The methods the Allow header enumerates for a path: those, other than the request's method
  and other than OPTIONS, whose tree has a handle for the path.
\<close>

definition routed_methods :: "('n, 'v, 'fs) externals \<Rightarrow> string \<Rightarrow> string \<Rightarrow> (string \<times> 'n) list \<Rightarrow>
    string list" where
  "routed_methods ext path reqMethod ts =
     map fst (filter (\<lambda>(m, n). m \<noteq> reqMethod \<and> m \<noteq> MethodOptions \<and>
                               fst (getValue ext n path False) \<noteq> None) ts)"

text \<open>
  The Allow header built from a list of methods: empty when the list is, else the methods,
  with OPTIONS added when auto-OPTIONS is enabled, sorted ascending and joined by a comma and
  a space.
\<close>

definition Allow_header :: "bool \<Rightarrow> string list \<Rightarrow> string" where
  "Allow_header auto_options methods =
     (if methods = [] then []
      else Join (sort (if auto_options then methods @ [MethodOptions] else methods)) '', '')"

text \<open>
  Every buffer the pool holds has room for the current maximum number of parameters: the
  maximum has not grown since those buffers were allocated.
\<close>

definition pool_fits :: "('n, 'v, 'fs) Router \<Rightarrow> bool" where
  "pool_fits r = list_all (\<lambda>b. unat (maxParams r) \<le> cap b) (pool_items (paramsPool r))"

text \<open>
  The Allow string of a path and a request method: for the path \<^verbatim>\<open>*\<close> the cached string
  (or, for the empty method of the refresh, the header over every method that has a tree),
  for any other path the header over the methods that have a route at the path.
\<close>

definition Allow_string :: "('n, 'v, 'fs) externals \<Rightarrow> ('n, 'v, 'fs) Router \<Rightarrow> string \<Rightarrow> string \<Rightarrow>
    string" where
  "Allow_string ext r path reqMethod =
     (if path = ''*'' \<and> reqMethod \<noteq> [] then globalAllowed r
      else if path = ''*''
      then Allow_header (HandleOPTIONS r) (filter (\<lambda>m. m \<noteq> MethodOptions) (map fst (trees r)))
      else Allow_header (HandleOPTIONS r) (routed_methods ext path reqMethod (trees r)))"

section \<open>The dispatch decision as the specification words it\<close>

text \<open>
  The specification lists six branches, evaluated in order, the first that resolves being
  the terminal one. \<open>resolves\<close> is the condition of each branch taken alone,
  \<open>terminal_action\<close> what the branch does to the writer and which collaborator it calls,
  written out operation by operation, \<open>dispatch_order\<close> the order, and \<open>first_resolving\<close> the
  first branch of the order whose condition holds.
\<close>

datatype branch =
    ExactMatch
  | TrailingSlashRedirect
  | FixedPathRedirect
  | AutoOPTIONS
  | MethodNotAllowed405
  | Fallback

definition dispatch_order :: "branch list" where
  "dispatch_order =
     [ExactMatch, TrailingSlashRedirect, FixedPathRedirect, AutoOPTIONS, MethodNotAllowed405,
      Fallback]"

text \<open>The result of the lookup in the tree of the request's method, when that tree exists.\<close>

definition lookupResult :: "('n, 'v, 'fs) externals \<Rightarrow> ('n, 'v, 'fs) Router \<Rightarrow> request \<Rightarrow>
    ('n \<times> 'v Handle option \<times> Params option \<times> bool) option" where
  "lookupResult ext r request =
     (case map_of (trees r) (Method request) of
        None \<Rightarrow> None
      | Some root \<Rightarrow> Some (root, getValue ext root (Path (URL request)) True))"

text \<open>The guard of both redirects: the method is not CONNECT and the path is not \<^verbatim>\<open>/\<close>.\<close>

definition redirectable :: "request \<Rightarrow> bool" where
  "redirectable request =
     (Method request \<noteq> MethodConnect \<and> Path (URL request) \<noteq> ''/'')"

fun resolves :: "('n, 'v, 'fs) externals \<Rightarrow> ('n, 'v, 'fs) Router \<Rightarrow> request \<Rightarrow> branch \<Rightarrow> bool"
  where
  "resolves ext r request ExactMatch =
     (case lookupResult ext r request of
        Some (root, Some handle, psPtr, tsr) \<Rightarrow> True
      | _ \<Rightarrow> False)"
| "resolves ext r request TrailingSlashRedirect =
     (case lookupResult ext r request of
        Some (root, handle, psPtr, tsr) \<Rightarrow>
          redirectable request \<and> tsr \<and> RedirectTrailingSlash r
      | None \<Rightarrow> False)"
| "resolves ext r request FixedPathRedirect =
     (case lookupResult ext r request of
        Some (root, handle, psPtr, tsr) \<Rightarrow>
          redirectable request \<and> RedirectFixedPath r \<and>
          snd (findCaseInsensitivePath ext root (CleanPath ext (Path (URL request)))
                 (RedirectTrailingSlash r))
      | None \<Rightarrow> False)"
| "resolves ext r request AutoOPTIONS =
     (Method request = MethodOptions \<and> HandleOPTIONS r \<and>
      Allow_string ext r (Path (URL request)) MethodOptions \<noteq> [])"
| "resolves ext r request MethodNotAllowed405 =
     (HandleMethodNotAllowed r \<and>
      Allow_string ext r (Path (URL request)) (Method request) \<noteq> [])"
| "resolves ext r request Fallback = True"

text \<open>
  The status of a redirect, the path with its final slash removed or added, an operation on
  the writer followed by a call, and the plain reply with a status (nothing is written for a
  request whose context is done).
\<close>

definition redirect_status :: "request \<Rightarrow> nat" where
  "redirect_status request = (if Method request = MethodGet then 301 else 308)"

definition slash_toggled :: "string \<Rightarrow> string" where
  "slash_toggled path =
     (if 1 < length path \<and> last path = CHR ''/'' then butlast path else path @ ''/'')"

definition preceded_by :: "event \<Rightarrow> 'v outcome \<Rightarrow> 'v outcome" where
  "preceded_by e out = (e # fst out, snd out)"

definition plain_reply :: "wid \<Rightarrow> request \<Rightarrow> nat \<Rightarrow> string \<Rightarrow> 'v outcome" where
  "plain_reply writer request code body =
     (if ctx_done request then ([], None) else ([HttpError writer body code], None))"

text \<open>
  What each branch does. The exact match calls the handle with the captured parameters,
  which are also put into the request's context when there are any. The two redirects
  redirect to the request's URL with the path replaced. Automatic OPTIONS sets the Allow
  header and then calls the OPTIONS responder or writes status 200. The 405 branch sets the
  Allow header and then calls the 405 responder, or the error handler with 405, or replies
  405 plainly. The fallback hands the request to the file server when static files are
  configured, and otherwise calls the not-found responder, or the error handler with 404, or
  replies 404 plainly.
\<close>

fun terminal_action :: "('n, 'v, 'fs) externals \<Rightarrow> ('n, 'v, 'fs) Router \<Rightarrow> branch \<Rightarrow> 'v Handler"
  where
  "terminal_action ext r ExactMatch writer request =
     (case lookupResult ext r request of
        Some (root, Some handle, psPtr, tsr) \<Rightarrow>
          (case psPtr of
             Some (p # ps) \<Rightarrow> handle writer (request\<lparr>ctx_params := Some (p # ps)\<rparr>) psPtr
           | _ \<Rightarrow> handle writer request psPtr)
      | _ \<Rightarrow> ([], None))"
| "terminal_action ext r TrailingSlashRedirect writer request =
     ([HttpRedirect writer request
         ((URL request)\<lparr>Path := slash_toggled (Path (URL request))\<rparr>)
         (redirect_status request)], None)"
| "terminal_action ext r FixedPathRedirect writer request =
     (case lookupResult ext r request of
        Some (root, handle, psPtr, tsr) \<Rightarrow>
          ([HttpRedirect writer request
              ((URL request)\<lparr>Path := fst (findCaseInsensitivePath ext root
                                            (CleanPath ext (Path (URL request)))
                                            (RedirectTrailingSlash r))\<rparr>)
              (redirect_status request)], None)
      | None \<Rightarrow> ([], None))"
| "terminal_action ext r AutoOPTIONS writer request =
     preceded_by (HeaderSet writer ''Allow'' (Allow_string ext r (Path (URL request)) MethodOptions))
       (case GlobalOPTIONS r of
          Some responder \<Rightarrow> responder writer request
        | None \<Rightarrow> ([WriteHeader writer 200], None))"
| "terminal_action ext r MethodNotAllowed405 writer request =
     preceded_by
       (HeaderSet writer ''Allow'' (Allow_string ext r (Path (URL request)) (Method request)))
       (case MethodNotAllowed r of
          Some responder \<Rightarrow> responder writer request
        | None \<Rightarrow>
            (case errorHandler r of
               Some eh \<Rightarrow> eh writer request 405
             | None \<Rightarrow> plain_reply writer request 405 ''Method Not Allowed''))"
| "terminal_action ext r Fallback writer request =
     (if ServeUnmatchedAsStatic r \<and> FileSystemForUnmatched r \<noteq> None
      then (case FileSystemForUnmatched r of
              Some fs \<Rightarrow>
                if isDefaultErrorHandlerUsed r then FileServer ext fs writer request
                else FileServerCapturing ext fs (errorHandler r) writer request
            | None \<Rightarrow> ([], None))
      else (case NotFound r of
              Some responder \<Rightarrow> responder writer request
            | None \<Rightarrow>
                (case errorHandler r of
                   Some eh \<Rightarrow> eh writer request 404
                 | None \<Rightarrow> plain_reply writer request 404 ''Not Found'')))"

definition first_resolving :: "('n, 'v, 'fs) externals \<Rightarrow> ('n, 'v, 'fs) Router \<Rightarrow> request \<Rightarrow>
    branch option" where
  "first_resolving ext r request = find (resolves ext r request) dispatch_order"

section \<open>A tree of static routes, for the examples\<close>

text \<open>
  Modelled from the spec: the trie (\<^verbatim>\<open>tree.go\<close>) and \<^verbatim>\<open>CleanPath\<close> are not among the sources.
  The theorems below hold for every value of the parameters \<open>ext\<close>; the examples need one
  value. In it a tree is the list of its routes, patterns are stored literally, and the
  operations are what the specification says of static patterns: a lookup returns the handle
  of the exact pattern and captures nothing, and recommends the trailing-slash redirect when
  the path with its final slash toggled is registered; the case-insensitive search compares
  paths with the ASCII letters lowered and returns the registered spelling, toggling the
  final slash when asked to; inserting a pattern twice panics; the parameter count of a
  pattern is the number of its \<^verbatim>\<open>:\<close> and \<^verbatim>\<open>*\<close> markers. \<open>CleanPath\<close> is the identity (the
  examples use clean paths only), and the file server does nothing.
\<close>

definition lower_char :: "char \<Rightarrow> char" where
  "lower_char c =
     (case map_of (zip ''ABCDEFGHIJKLMNOPQRSTUVWXYZ'' ''abcdefghijklmnopqrstuvwxyz'') c of
        Some l \<Rightarrow> l
      | None \<Rightarrow> c)"

type_synonym 'v routes = "(string \<times> 'v Handle) list"

definition routes_getValue :: "'v routes \<Rightarrow> string \<Rightarrow> bool \<Rightarrow>
    'v Handle option \<times> Params option \<times> bool" where
  "routes_getValue n path pool =
     (case map_of n path of
        Some h \<Rightarrow> (Some h, None, False)
      | None \<Rightarrow> (None, None, map_of n (toggleTrailingSlash path) \<noteq> None))"

definition routes_find :: "'v routes \<Rightarrow> string \<Rightarrow> bool \<Rightarrow> string \<times> bool" where
  "routes_find n path fixTrailingSlash =
     (case find (\<lambda>(p, h). map lower_char p = map lower_char path) n of
        Some (p, h) \<Rightarrow> (p, True)
      | None \<Rightarrow>
          if fixTrailingSlash then
            (case find (\<lambda>(p, h). map lower_char p = map lower_char (toggleTrailingSlash path)) n of
               Some (p, h) \<Rightarrow> (p, True)
             | None \<Rightarrow> ([], False))
          else ([], False))"

definition routes_ext :: "('v routes, 'v, unit) externals" where
  "routes_ext =
     \<lparr> new_node = [],
       addRoute = (\<lambda>n path h. if map_of n path \<noteq> None
                     then (Some ''a handle is already registered for this path'', n)
                     else (None, n @ [(path, h)])),
       getValue = routes_getValue,
       findCaseInsensitivePath = routes_find,
       countParams = (\<lambda>path. of_nat (length (filter (\<lambda>c. c = CHR '':'' \<or> c = CHR ''*'') path))),
       CleanPath = (\<lambda>p. p),
       FileServer = (\<lambda>fs w req. ([], None)),
       FileServerCapturing = (\<lambda>fs eh w req. ([], None)) \<rparr>"

text \<open>
  Handles and a middleware that leave a note, a handle that panics after its note, and a
  request for a method and a path, with a query, whose context is done or not.
\<close>

definition noting :: "string \<Rightarrow> 'v Handle" where
  "noting s = (\<lambda>w req ps. ([Note s], None))"

definition panicking :: "string \<Rightarrow> 'v \<Rightarrow> 'v Handle" where
  "panicking s v = (\<lambda>w req ps. ([Note s], Some v))"

definition noting_middleware :: "string \<Rightarrow> 'v Middleware" where
  "noting_middleware s = (\<lambda>next w req. seq (emit (Note s)) (next w req))"

definition request_for :: "string \<Rightarrow> string \<Rightarrow> bool \<Rightarrow> request" where
  "request_for method path gone =
     \<lparr>Method = method, URL = \<lparr>Path = path, RawQuery = ''page=2'', Fragment = []\<rparr>,
      ctx_done = gone, ctx_params = None\<rparr>"

text \<open>Routers built by registering routes on a new router.\<close>

definition x_router :: "(string routes, string, unit) Router" where
  "x_router = snd (Handle routes_ext New ''GET'' ''/x'' (Some (noting ''x'')))"

definition head_router :: "(string routes, string, unit) Router" where
  "head_router = snd (Handle routes_ext New ''HEAD'' ''/foo'' (Some (noting ''foo'')))"

definition foo_router :: "(string routes, string, unit) Router" where
  "foo_router = snd (Handle routes_ext New ''GET'' ''/foo'' (Some (noting ''foo'')))"

definition docs_router :: "(string routes, string, unit) Router" where
  "docs_router = snd (Handle routes_ext New ''POST'' ''/Docs'' (Some (noting ''docs'')))"

definition connect_router :: "(string routes, string, unit) Router" where
  "connect_router = snd (Handle routes_ext New ''CONNECT'' ''/foo'' (Some (noting ''tunnel'')))"

definition boom_router :: "(string routes, string, unit) Router" where
  "boom_router =
     snd (Handle routes_ext New ''GET'' ''/boom'' (Some (panicking ''handler ran'' ''boom'')))"

text \<open>
  A router that registers a route with one parameter, serves a request (a buffer is taken
  from the pool and handed back), and then registers a route with two parameters.
\<close>

definition one_param_router :: "(string routes, string, unit) Router" where
  "one_param_router = snd (Handle routes_ext New ''GET'' ''/a/:x'' (Some (noting ''a'')))"

definition served_router :: "(string routes, string, unit) Router" where
  "served_router =
     (case getParams None one_param_router of
        Some (b, r) \<Rightarrow> putParams (Some b) r
      | None \<Rightarrow> one_param_router)"

definition two_param_router :: "(string routes, string, unit) Router" where
  "two_param_router =
     snd (Handle routes_ext served_router ''GET'' ''/b/:x/:y'' (Some (noting ''b'')))"




text \<open>
  A router with only OPTIONS \<^verbatim>\<open>/x\<close> registered, and the router of the panicking handle
  with a recovery handler set.
\<close>

definition options_router :: "(string routes, string, unit) Router" where
  "options_router = snd (Handle routes_ext New ''OPTIONS'' ''/x'' (Some (noting ''x'')))"

definition recovering_router :: "(string routes, string, unit) Router" where
  "recovering_router =
     boom_router\<lparr>RecoveryHandler := Some (\<lambda>w req v. ([Note ''recovered''], None))\<rparr>"

section \<open>Retrieval of captured parameters\<close>

lemma ByName_find:
  "ByName ps n = (case find (\<lambda>p. Key p = n) ps of None \<Rightarrow> '''' | Some p \<Rightarrow> Value p)"
  by (induction ps) simp_all

lemma ByName_absent: "(\<forall>i<length ps. Key (ps ! i) \<noteq> n) \<Longrightarrow> ByName ps n = ''''"
proof (induction ps)
  case Nil
  then show ?case by simp
next
  case (Cons p ps)
  from Cons.prems have "Key p \<noteq> n" by fastforce
  moreover from Cons.prems have "\<forall>i<length ps. Key (ps ! i) \<noteq> n" by fastforce
  ultimately show ?case using Cons.IH by simp
qed

lemma ByName_first:
  "i < length ps \<Longrightarrow> Key (ps ! i) = n \<Longrightarrow> (\<forall>j<i. Key (ps ! j) \<noteq> n) \<Longrightarrow>
   ByName ps n = Value (ps ! i)"
proof (induction ps arbitrary: i)
  case Nil
  then show ?case by simp
next
  case (Cons p ps)
  show ?case
  proof (cases i)
    case 0
    with Cons.prems show ?thesis by simp
  next
    case (Suc k)
    with Cons.prems have "Key p \<noteq> n" by fastforce
    moreover from Suc Cons.prems have "\<forall>j<k. Key (ps ! j) \<noteq> n" by fastforce
    moreover from Suc Cons.prems have "k < length ps" "Key (ps ! k) = n" by simp_all
    ultimately show ?thesis using Cons.IH [of k] Suc by simp
  qed
qed

text \<open>
  Claim C9. For every capture sequence \<open>ps\<close> and name \<open>n\<close>, \<open>ByName ps n\<close> is the value of the
  first pair, in left-to-right order, whose key is \<open>n\<close>, and the empty string when no pair has
  that key. The position is an index of the same sequence that positional retrieval reads:
  when index \<open>i\<close> holds the key \<open>n\<close> and no smaller index does, retrieval by name and retrieval
  by index \<open>i\<close> give the same value.
\<close>

theorem C9_ByName_first_match:
  "(i < length ps \<and> Key (ps ! i) = n \<and> (\<forall>j<i. Key (ps ! j) \<noteq> n)
      \<longrightarrow> ByIndex ps i = Some (ps ! i) \<and> ByName ps n = Value (ps ! i))
   \<and> ((\<forall>i<length ps. Key (ps ! i) \<noteq> n) \<longrightarrow> ByName ps n = '''')
   \<and> ByName ps n = (case find (\<lambda>p. Key p = n) ps of None \<Rightarrow> '''' | Some p \<Rightarrow> Value p)"
  using ByName_first [of i ps n] ByName_absent [of ps n] ByName_find [of ps n]
  by (simp add: ByIndex_def)

theorem C9_ByName_first_match_witness:
  "ByName [\<lparr>Key = ''category'', Value = ''go''\<rparr>, \<lparr>Key = ''post'', Value = ''router''\<rparr>,
           \<lparr>Key = ''post'', Value = ''second''\<rparr>] ''post'' = ''router''
   \<and> ByIndex [\<lparr>Key = ''category'', Value = ''go''\<rparr>, \<lparr>Key = ''post'', Value = ''router''\<rparr>,
           \<lparr>Key = ''post'', Value = ''second''\<rparr>] 1 = Some \<lparr>Key = ''post'', Value = ''router''\<rparr>
   \<and> ByName [\<lparr>Key = ''category'', Value = ''go''\<rparr>] ''id'' = ''''"
  using C9_ByName_first_match [of 1 "[\<lparr>Key = ''category'', Value = ''go''\<rparr>,
      \<lparr>Key = ''post'', Value = ''router''\<rparr>, \<lparr>Key = ''post'', Value = ''second''\<rparr>]" "''post''"]
    C9_ByName_first_match [of 0 "[\<lparr>Key = ''category'', Value = ''go''\<rparr>]" "''id''"]
  by (simp add: ByIndex_def)

section \<open>The sort and the Allow header\<close>

text \<open>
  The inner loop, entered at the end of a sorted prefix \<open>A\<close> with the element \<open>x\<close> behind it,
  moves \<open>x\<close> to its place in the prefix and touches nothing behind \<open>x\<close>.
\<close>

lemma sort_inner_decomp:
  "sorted A \<Longrightarrow>
   sort_inner (A @ x # B) (length A) = filter (\<lambda>y. y \<le> x) A @ x # filter (\<lambda>y. x < y) A @ B"
proof (induction A arbitrary: B rule: rev_induct)
  case Nil
  then show ?case by simp
next
  case (snoc y A)
  from snoc.prems have sA: "sorted A" and le: "\<forall>z\<in>set A. z \<le> y"
    by (auto simp: sorted_append)
  show ?case
  proof (cases "x < y")
    case True
    have "sort_inner ((A @ [y]) @ x # B) (length (A @ [y]))
        = sort_inner (A @ x # y # B) (length A)"
      using True by (simp add: nth_append list_update_append)
    also have "\<dots> = filter (\<lambda>y. y \<le> x) A @ x # filter (\<lambda>y. x < y) A @ y # B"
      using snoc.IH [OF sA] by simp
    finally show ?thesis using True by simp
  next
    case False
    then have "y \<le> x" by simp
    with le have "\<forall>z\<in>set A. z \<le> x" by auto
    then have "filter (\<lambda>y. y \<le> x) A = A" "filter (\<lambda>y. x < y) A = []"
      by (auto simp: filter_empty_conv)
    with False show ?thesis by (simp add: nth_append)
  qed
qed

lemma sorted_insert_split:
  fixes x :: "'a::linorder"
  shows "sorted A \<Longrightarrow> sorted (filter (\<lambda>y. y \<le> x) A @ x # filter (\<lambda>y. x < y) A)"
  by (auto simp: sorted_append sorted_wrt_filter intro: order_trans less_imp_le)

lemma mset_insert_split:
  fixes x :: "'a::linorder"
  shows "mset (filter (\<lambda>y. y \<le> x) A @ x # filter (\<lambda>y. x < y) A) = add_mset x (mset A)"
proof -
  have "(\<lambda>y. x < y) = (\<lambda>y. \<not> y \<le> x)" by auto
  then show ?thesis by simp
qed

text \<open>The outer loop keeps the elements and extends the sorted prefix to the whole list.\<close>

lemma sort_outer_sorts:
  "l = length a \<Longrightarrow> i \<le> l \<Longrightarrow> sorted (take i a) \<Longrightarrow>
   sorted (sort_outer i l a) \<and> mset (sort_outer i l a) = mset a"
proof (induction i l a rule: sort_outer.induct)
  case (1 i l a)
  show ?case
  proof (cases "i < l")
    case False
    with "1.prems" show ?thesis by (simp add: sort_outer.simps)
  next
    case True
    let ?A = "take i a" and ?x = "a ! i" and ?B = "drop (Suc i) a"
    let ?P = "filter (\<lambda>y. y \<le> ?x) ?A @ ?x # filter (\<lambda>y. ?x < y) ?A"
    from True "1.prems" have a: "a = ?A @ ?x # ?B" and lA: "length ?A = i"
      by (simp_all add: id_take_nth_drop)
    have "sort_inner a i = sort_inner (?A @ ?x # ?B) (length ?A)"
      using a lA by simp
    then have inner: "sort_inner a i = ?P @ ?B"
      using sort_inner_decomp [OF "1.prems"(3), of ?x ?B] by simp
    have mP: "mset ?P = add_mset ?x (mset ?A)" by (rule mset_insert_split)
    then have "mset ?P = mset (?x # ?A)" by simp
    then have "length ?P = length (?x # ?A)" by (rule mset_eq_length)
    then have lP: "length ?P = Suc i" using lA by simp
    have ms: "mset (sort_inner a i) = mset a"
    proof -
      have "mset (sort_inner a i) = mset ?P + mset ?B" using inner by simp
      also have "\<dots> = mset (?A @ ?x # ?B)" using mP by simp
      finally show ?thesis using a by simp
    qed
    then have "length (sort_inner a i) = length a" by (rule mset_eq_length)
    then have len: "l = length (sort_inner a i)" using "1.prems"(1) by simp
    have "take (length P) (P @ B) = P" for P B :: "string list" by simp
    from this [of ?P ?B] have "take (Suc i) (sort_inner a i) = ?P"
      unfolding lP inner .
    then have st: "sorted (take (Suc i) (sort_inner a i))"
      using sorted_insert_split [OF "1.prems"(3), of ?x] by simp
    from True have "Suc i \<le> l" by simp
    from "1.IH" [OF True len this st] ms True show ?thesis
      by (simp add: sort_outer.simps [of i l a])
  qed
qed

lemma sort_methods_sort: "sort_methods a = sort a"
proof -
  have "sorted (take 1 a)" by (cases a) simp_all
  moreover have "a \<noteq> [] \<Longrightarrow> 1 \<le> length a" by (cases a) simp_all
  ultimately have "a \<noteq> [] \<Longrightarrow> sorted (sort_methods a) \<and> mset (sort_methods a) = mset a"
    unfolding sort_methods_def using sort_outer_sorts [of "length a" a 1] by simp
  moreover have "sort_methods [] = []" by (simp add: sort_methods_def sort_outer.simps)
  ultimately show ?thesis
    by (cases "a = []") (auto intro: properties_for_sort [symmetric])
qed

lemma sort_mset_cong: "mset xs = mset ys \<Longrightarrow> sort xs = sort (ys :: string list)"
  by (metis properties_for_sort sorted_sort mset_sort)

text \<open>The two loops over the trees are filters of the methods, in the order of the visit.\<close>

lemma allowed_all_filter:
  "allowed_all ts acc = acc @ filter (\<lambda>m. m \<noteq> MethodOptions) (map fst ts)"
  by (induction ts acc rule: allowed_all.induct) simp_all

lemma allowed_at_filter:
  "allowed_at ext path reqMethod ts acc = acc @ routed_methods ext path reqMethod ts"
  by (induction ext path reqMethod ts acc rule: allowed_at.induct)
     (auto simp: routed_methods_def split: prod.splits option.splits)

lemma allowed_join_sort:
  "allowed_join r ms =
     (if ms = [] then []
      else Join (sort (if HandleOPTIONS r then ms @ [MethodOptions] else ms)) '', '')"
  by (simp add: allowed_join_def sort_methods_sort)

lemma allowed_path:
  "path \<noteq> ''*'' \<Longrightarrow> allowed ext r path reqMethod =
     (let ms = routed_methods ext path reqMethod (trees r) in
      if ms = [] then []
      else Join (sort (if HandleOPTIONS r then ms @ [MethodOptions] else ms)) '', '')"
  by (simp add: allowed_def allowed_at_filter allowed_join_sort Let_def)

lemma routed_methods_excludes: "m \<notin> set (routed_methods ext path m ts)"
  by (auto simp: routed_methods_def)

text \<open>
  The order in which \<^verbatim>\<open>range\<close> visits the map does not matter: two lists with the same
  entries give the same Allow string.
\<close>

lemma routed_methods_mset:
  "mset (routed_methods ext path m ts) =
     image_mset fst (filter_mset (\<lambda>(k, n). k \<noteq> m \<and> k \<noteq> MethodOptions \<and>
                                     fst (getValue ext n path False) \<noteq> None) (mset ts))"
  by (simp add: routed_methods_def)

lemma allowed_join_mset:
  assumes "mset ms = mset ms'"
  shows "allowed_join r ms = allowed_join r ms'"
proof -
  from assms have e: "(ms = []) = (ms' = [])" by (metis mset_zero_iff)
  from assms have "mset (ms @ [MethodOptions]) = mset (ms' @ [MethodOptions])" by simp
  then have "sort (ms @ [MethodOptions]) = sort (ms' @ [MethodOptions])" by (rule sort_mset_cong)
  moreover from assms have "sort ms = sort ms'" by (rule sort_mset_cong)
  ultimately show ?thesis using e by (simp add: allowed_join_sort)
qed

lemma allowed_any_order:
  assumes "mset ts = mset ts'"
  shows "allowed ext (r\<lparr>trees := ts\<rparr>) path m = allowed ext (r\<lparr>trees := ts'\<rparr>) path m"
proof -
  have j: "allowed_join (r\<lparr>trees := ts\<rparr>) ms = allowed_join (r\<lparr>trees := ts'\<rparr>) ms" for ms
    by (simp add: allowed_join_def)
  have 1: "mset (routed_methods ext path m ts) = mset (routed_methods ext path m ts')"
    using assms by (simp add: routed_methods_mset)
  have "mset (map fst ts) = mset (map fst ts')" using assms by (metis mset_map)
  then have 2: "mset (filter (\<lambda>k. k \<noteq> MethodOptions) (map fst ts)) =
      mset (filter (\<lambda>k. k \<noteq> MethodOptions) (map fst ts'))"
    by (metis mset_filter)
  show ?thesis
    using allowed_join_mset [OF 1, of "r\<lparr>trees := ts'\<rparr>"]
      allowed_join_mset [OF 2, of "r\<lparr>trees := ts'\<rparr>"] j
    by (simp add: allowed_def allowed_at_filter allowed_all_filter)
qed

section \<open>The example routers, evaluated\<close>

lemma routes_ext_simps [simp]:
  "new_node routes_ext = []"
  "addRoute routes_ext n path h =
     (if map_of n path \<noteq> None then (Some ''a handle is already registered for this path'', n)
      else (None, n @ [(path, h)]))"
  "getValue routes_ext = routes_getValue"
  "findCaseInsensitivePath routes_ext = routes_find"
  "countParams routes_ext path = of_nat (length (filter (\<lambda>c. c = CHR '':'' \<or> c = CHR ''*'') path))"
  "CleanPath routes_ext p = p"
  "FileServer routes_ext fs w req = ([], None)"
  "FileServerCapturing routes_ext fs eh w req = ([], None)"
  by (simp_all add: routes_ext_def)

lemmas eval_Handle = Handle_def method_root_def Let_def New_def allowed_def
  allowed_join_def sort_methods_def sort_outer.simps Handle_maxParams_def

lemmas eval_serve = New_def ServeHTTP_def applyMiddleware_def coreRoutingAndHandling_def
  routeRequest_def lookupParams_def lookupResult_def routes_getValue_def routes_find_def
  invokeHandle_def noting_def panicking_def request_for_def recv_def redirect_def
  redirectCode_def toggleTrailingSlash_def emit_def seq_def redirectable_def lower_char_def
  optionsOrNotAllowed_def serveUnmatched_def replyOptions_def replyMethodNotAllowed_def
  defaultErrorHandler_def StatusText_def allowed_def allowed_join_def sort_methods_def
  sort_outer.simps

lemma x_router_eval:
  "x_router = New\<lparr>trees := [(''GET'', [(''/x'', noting ''x'')])],
                  globalAllowed := ''GET, OPTIONS''\<rparr>"
  by (simp add: x_router_def eval_Handle)

lemma head_router_eval:
  "head_router = New\<lparr>trees := [(''HEAD'', [(''/foo'', noting ''foo'')])],
                     globalAllowed := ''HEAD, OPTIONS''\<rparr>"
  by (simp add: head_router_def eval_Handle)

lemma foo_router_eval:
  "foo_router = New\<lparr>trees := [(''GET'', [(''/foo'', noting ''foo'')])],
                    globalAllowed := ''GET, OPTIONS''\<rparr>"
  by (simp add: foo_router_def eval_Handle)

lemma docs_router_eval:
  "docs_router = New\<lparr>trees := [(''POST'', [(''/Docs'', noting ''docs'')])],
                     globalAllowed := ''OPTIONS, POST''\<rparr>"
  by (simp add: docs_router_def eval_Handle)

lemma connect_router_eval:
  "connect_router = New\<lparr>trees := [(''CONNECT'', [(''/foo'', noting ''tunnel'')])],
                        globalAllowed := ''CONNECT, OPTIONS''\<rparr>"
  by (simp add: connect_router_def eval_Handle)

lemma boom_router_eval:
  "boom_router = New\<lparr>trees := [(''GET'', [(''/boom'', panicking ''handler ran'' ''boom'')])],
                     globalAllowed := ''GET, OPTIONS''\<rparr>"
  by (simp add: boom_router_def eval_Handle)

lemma one_param_router_eval:
  "one_param_router =
     New\<lparr>trees := [(''GET'', [(''/a/:x'', noting ''a'')])], globalAllowed := ''GET, OPTIONS'',
         maxParams := 1, paramsPool := \<lparr>pool_items = [], pool_New = True\<rparr>\<rparr>"
  by (simp add: one_param_router_def eval_Handle)

lemma served_router_eval:
  "served_router =
     New\<lparr>trees := [(''GET'', [(''/a/:x'', noting ''a'')])], globalAllowed := ''GET, OPTIONS'',
         maxParams := 1,
         paramsPool := \<lparr>pool_items = [\<lparr>elems = [], cap = 1\<rparr>], pool_New = True\<rparr>\<rparr>"
  by (simp add: served_router_def one_param_router_eval getParams_def pool_Get_def putParams_def
      New_def)

lemma two_param_router_eval:
  "maxParams two_param_router = 2 \<and>
   paramsPool two_param_router = \<lparr>pool_items = [\<lparr>elems = [], cap = 1\<rparr>], pool_New = True\<rparr>"
  by (simp add: two_param_router_def served_router_eval Handle_def method_root_def Let_def
      New_def Handle_maxParams_def)




section \<open>Middleware composition\<close>

lemma applyMiddleware_loop_foldr:
  "k \<le> length ms \<Longrightarrow> applyMiddleware_loop ms k h = foldr (\<lambda>m next. m next) (take k ms) h"
proof (induction k arbitrary: h)
  case 0
  then show ?case by simp
next
  case (Suc k)
  then have "take (Suc k) ms = take k ms @ [ms ! k]"
    by (simp add: take_Suc_conv_app_nth)
  with Suc show ?case by simp
qed

lemma applyMiddleware_foldr:
  "applyMiddleware r h = foldr (\<lambda>m next. m next) (Middlewares r) h"
  by (simp add: applyMiddleware_def applyMiddleware_loop_foldr)

lemma Middlewares_foldl_Use:
  "Middlewares (foldl Use r mss) = Middlewares r @ concat mss"
  by (induction mss arbitrary: r) (simp_all add: Use_def)

text \<open>
  Claim C10. After any sequence of calls of \<open>Use\<close>, the handler that \<open>ServeHTTP\<close> runs is the
  middlewares, in the order in which they were added, wrapped around the core handler with
  the first added outermost: with \<open>m1\<close>, \<open>m2\<close>, \<open>m3\<close> added in this order to a new router it
  is \<open>m1 (m2 (m3 core))\<close>. The core handler is the whole decision logic.
\<close>

theorem C10_middleware_order:
  "ServeHTTP ext (foldl Use r mss) w req =
     foldr (\<lambda>m next. m next) (Middlewares r @ concat mss)
       (coreRoutingAndHandling ext (foldl Use r mss) w req) w req
   \<and> ServeHTTP ext (Use (Use (Use New [m1]) [m2]) [m3]) w req =
       m1 (m2 (m3 (coreRoutingAndHandling ext (Use (Use (Use New [m1]) [m2]) [m3]) w req))) w req"
  by (simp add: ServeHTTP_def applyMiddleware_foldr Middlewares_foldl_Use Use_def New_def)

text \<open>
  Three middlewares that each leave a note before calling the next handler, added as A, B,
  C to a router without routes: the notes appear in that order, before the reply 404 of the
  core.
\<close>

theorem C10_middleware_order_witness:
  "ServeHTTP routes_ext
     (Use (Use (Use New [noting_middleware ''A'']) [noting_middleware ''B''])
        [noting_middleware ''C''])
     0 (request_for ''GET'' ''/x'' False) =
   ([Note ''A'', Note ''B'', Note ''C'', HttpError 0 ''Not Found'' StatusNotFound],
    None :: string option)"
  using C10_middleware_order [where ext=routes_ext and ?m1.0="noting_middleware ''A''"
      and ?m2.0="noting_middleware ''B''" and ?m3.0="noting_middleware ''C''" and w=0
      and req="request_for ''GET'' ''/x'' False" and r=New and mss="[]"]
  by (simp add: noting_middleware_def Use_def New_def ServeHTTP_def applyMiddleware_def
      coreRoutingAndHandling_def routeRequest_def lookupParams_def request_for_def recv_def
      emit_def seq_def optionsOrNotAllowed_def serveUnmatched_def defaultErrorHandler_def
      StatusText_def allowed_def allowed_join_def)

section \<open>Registration\<close>

lemma begins_with_slash:
  "(length path < 1 \<or> path ! 0 \<noteq> CHR ''/'') = (take 1 path \<noteq> ''/'')"
  by (cases path) simp_all

text \<open>
  Claim C5. \<open>Handle\<close> panics in one of its own checks, leaving the router as it was, whenever
  the method is empty, or the path is empty or does not begin with \<^verbatim>\<open>/\<close>, or the handle is
  nil. When the method is not empty, the path begins with \<^verbatim>\<open>/\<close> and the handle is not nil,
  no check of \<open>Handle\<close> panics (a panic can then only come from \<^verbatim>\<open>addRoute\<close>).
\<close>

theorem C5_Handle_validation:
  "(meth = [] \<or> take 1 path \<noteq> ''/'' \<or> handle = None \<longrightarrow>
      (\<exists>msg. Handle ext r meth path handle = (Some (HandlePanic msg), r)))
   \<and> (meth \<noteq> [] \<and> take 1 path = ''/'' \<and> handle \<noteq> None \<longrightarrow>
      (\<forall>msg. fst (Handle ext r meth path handle) \<noteq> Some (HandlePanic msg)))"
proof (intro conjI impI)
  assume "meth = [] \<or> take 1 path \<noteq> ''/'' \<or> handle = None"
  then show "\<exists>msg. Handle ext r meth path handle = (Some (HandlePanic msg), r)"
    unfolding Handle_def begins_with_slash by (auto split: option.splits)
next
  assume "meth \<noteq> [] \<and> take 1 path = ''/'' \<and> handle \<noteq> None"
  then show "\<forall>msg. fst (Handle ext r meth path handle) \<noteq> Some (HandlePanic msg)"
    unfolding Handle_def begins_with_slash
    by (auto simp: Let_def split: option.splits prod.splits)
qed

text \<open>
  On a new router: an empty method, a path without the leading slash and a nil handle each
  panic with the message of the check; a well-formed registration does not panic.
\<close>

theorem C5_Handle_validation_witness:
  "Handle routes_ext (New :: (string routes, string, unit) Router) [] ''/x''
       (Some (noting ''h''))
     = (Some (HandlePanic ''method must not be empty''), New)
   \<and> fst (Handle routes_ext (New :: (string routes, string, unit) Router) ''GET'' ''x''
            (Some (noting ''h'')))
     = Some (HandlePanic (''path must begin with '/' in path 'x'' @ [apostrophe]))
   \<and> fst (Handle routes_ext (New :: (string routes, string, unit) Router) ''GET'' ''/x'' None)
     = Some (HandlePanic ''handle must not be nil'')
   \<and> fst (Handle routes_ext (New :: (string routes, string, unit) Router) ''GET'' ''/x''
            (Some (noting ''h''))) = None"
  using C5_Handle_validation [where ext=routes_ext
      and r="New :: (string routes, string, unit) Router"
      and meth="[]" and path="''/x''" and handle="Some (noting ''h'')"]
    C5_Handle_validation [where ext=routes_ext
      and r="New :: (string routes, string, unit) Router"
      and meth="''GET''" and path="''/x''" and handle="Some (noting ''h'')"]
  by (simp add: Handle_def method_root_def Let_def New_def)

subsection \<open>The cache of the server-wide Allow string\<close>



lemma Handle_maxParams_fields [simp]:
  "trees (Handle_maxParams ext path vc r) = trees r"
  "globalAllowed (Handle_maxParams ext path vc r) = globalAllowed r"
  "HandleOPTIONS (Handle_maxParams ext path vc r) = HandleOPTIONS r"
  by (simp_all add: Handle_maxParams_def Let_def)









subsection \<open>The parameter pool\<close>

lemma getParams_length: "getParams pick r = Some (b, r') \<Longrightarrow> length (elems b) = 0"
  by (auto simp: getParams_def pool_Get_def Let_def split: option.splits if_splits prod.splits)

lemma getParams_fresh:
  "pool_New (paramsPool r) \<Longrightarrow>
   getParams None r = Some (\<lparr>elems = [], cap = unat (maxParams r)\<rparr>, r)"
  by (simp add: getParams_def pool_Get_def)

lemma getParams_fits:
  "pool_fits r \<Longrightarrow> getParams pick r = Some (b, r') \<Longrightarrow> unat (maxParams r) \<le> cap b"
  by (auto simp: getParams_def pool_Get_def pool_fits_def Let_def list_all_length
      split: option.splits if_splits prod.splits)

lemma getParams_returns:
  "pool_New (paramsPool r) \<Longrightarrow> \<exists>b r'. getParams pick r = Some (b, r')"
  by (auto simp: getParams_def pool_Get_def Let_def split: option.splits if_splits prod.splits)

lemma Handle_maxParams_max:
  "maxParams (Handle_maxParams ext path vc r) = max (maxParams r) (countParams ext path + vc)"
  "0 < maxParams (Handle_maxParams ext path vc r) \<Longrightarrow>
   pool_New (paramsPool (Handle_maxParams ext path vc r))"
  "pool_items (paramsPool (Handle_maxParams ext path vc r)) = pool_items (paramsPool r)"
  by (auto simp: Handle_maxParams_def Let_def max_def)

lemma method_root_pool [simp]:
  "maxParams (snd (method_root ext r meth)) = maxParams r"
  "paramsPool (snd (method_root ext r meth)) = paramsPool r"
  by (simp_all add: method_root_def Let_def split: option.splits)

lemma Handle_success_maxParams:
  assumes "Handle ext r meth path handle = (None, r')"
  shows "maxParams r' =
           max (maxParams r) (countParams ext path + (if SaveMatchedRoutePath r then 1 else 0))"
    and "0 < maxParams r' \<Longrightarrow> pool_New (paramsPool r')"
    and "pool_items (paramsPool r') = pool_items (paramsPool r)"
proof -
  obtain root r1 where mr: "method_root ext r meth = (root, r1)"
    by (cases "method_root ext r meth")
  then have r1: "maxParams r1 = maxParams r" "paramsPool r1 = paramsPool r"
    using method_root_pool [of ext r meth] by simp_all
  obtain root' where r':
    "r' = Handle_maxParams ext path (if SaveMatchedRoutePath r then 1 else 0)
            (r1\<lparr>trees := set_tree meth root' (trees r1)\<rparr>)"
    using assms mr
    by (auto simp: Handle_def Let_def split: if_splits option.splits prod.splits)
  show "maxParams r' =
          max (maxParams r) (countParams ext path + (if SaveMatchedRoutePath r then 1 else 0))"
    unfolding r' Handle_maxParams_max using r1 by simp
  show "0 < maxParams r' \<Longrightarrow> pool_New (paramsPool r')"
    unfolding r' by (rule Handle_maxParams_max(2))
  show "pool_items (paramsPool r') = pool_items (paramsPool r)"
    unfolding r' Handle_maxParams_max using r1 by simp
qed

text \<open>
  Claim C6, as amended. Every buffer \<open>getParams\<close> returns has length zero. A buffer the pool
  allocates has the current \<^verbatim>\<open>maxParams\<close> as its capacity; a buffer that was handed back
  keeps the capacity it has, so the capacity of the returned buffer is at least the current
  maximum whenever every pooled buffer has room for it, that is, as long as the maximum has
  not grown since the pooled buffers were allocated. A successful registration makes
  \<^verbatim>\<open>maxParams\<close> the larger of its old value and the parameter count of the new route (in
  16-bit arithmetic), and once \<^verbatim>\<open>maxParams\<close> is positive \<open>getParams\<close> returns a buffer.
\<close>

theorem C6_getParams_buffer:
  "(getParams pick r = Some (b, r') \<longrightarrow> length (elems b) = 0)
   \<and> (pool_New (paramsPool r) \<longrightarrow>
        getParams None r = Some (\<lparr>elems = [], cap = unat (maxParams r)\<rparr>, r))
   \<and> (pool_fits r \<and> getParams pick r = Some (b, r') \<longrightarrow> unat (maxParams r) \<le> cap b)
   \<and> (Handle ext r0 meth path handle = (None, r) \<longrightarrow>
        maxParams r = max (maxParams r0)
                        (countParams ext path + (if SaveMatchedRoutePath r0 then 1 else 0))
        \<and> (0 < maxParams r \<longrightarrow> (\<exists>b' r''. getParams pick r = Some (b', r''))))"
  using getParams_length [of pick r b r'] getParams_fresh [of r] getParams_fits [of r pick b r']
    Handle_success_maxParams [of ext r0 meth path handle r] getParams_returns [of r pick]
  by blast

text \<open>
  After the route \<^verbatim>\<open>/a/:x\<close> the pool allocates a buffer of capacity 1, the maximum; handed
  back while the maximum is still 1, the buffer is returned again with length 0 and a
  capacity that suffices.
\<close>

theorem C6_getParams_buffer_witness:
  "getParams None one_param_router = Some (\<lparr>elems = [], cap = 1\<rparr>, one_param_router)
   \<and> unat (maxParams one_param_router) = 1
   \<and> pool_fits served_router
   \<and> map_option (\<lambda>(b, r). (length (elems b), cap b)) (getParams (Some 0) served_router)
       = Some (0, 1)"
  using C6_getParams_buffer [where pick=None and r=one_param_router
      and b="\<lparr>elems = [], cap = 1\<rparr>" and r'=one_param_router and ext=routes_ext
      and ?r0.0=New and meth="''GET''" and path="''/a/:x''" and handle="Some (noting ''a'')"]
    C6_getParams_buffer [where pick="Some 0" and r=served_router
      and b="\<lparr>elems = [], cap = 1\<rparr>" and r'=one_param_router and ext=routes_ext
      and ?r0.0=New and meth="''GET''" and path="''/a/:x''" and handle="Some (noting ''a'')"]
  by (simp add: one_param_router_eval served_router_eval getParams_def pool_Get_def
      pool_fits_def New_def)

text \<open>
  Claim C6 as stated fails when the maximum grows after the pool began issuing buffers.
  Register \<^verbatim>\<open>/a/:x\<close>, take a buffer and hand it back (as serving one request does), then
  register \<^verbatim>\<open>/b/:x/:y\<close>: the maximum is now 2, and the pool returns the buffer it holds, of
  capacity 1.
\<close>

theorem C6_recycled_buffer_counterexample:
  "map_option (\<lambda>(b, r). (length (elems b), cap b)) (getParams (Some 0) two_param_router)
     = Some (0, 1)
   \<and> unat (maxParams two_param_router) = 2"
  using two_param_router_eval
  by (simp add: getParams_def pool_Get_def Let_def)

section \<open>The dispatch decision\<close>

text \<open>The body of the core handler, by the result of the lookup.\<close>

lemma routeRequest_lookup:
  "routeRequest ext r writer request =
     (case lookupResult ext r request of
        None \<Rightarrow> optionsOrNotAllowed ext r writer request
      | Some (root, Some handle, psPtr, tsr) \<Rightarrow> invokeHandle handle psPtr writer request
      | Some (root, None, psPtr, tsr) \<Rightarrow>
          if redirectable request then
            if tsr \<and> RedirectTrailingSlash r
            then redirect (toggleTrailingSlash (Path (URL request))) (redirectCode request)
                   writer request
            else if RedirectFixedPath r \<and>
                    snd (findCaseInsensitivePath ext root (CleanPath ext (Path (URL request)))
                           (RedirectTrailingSlash r))
            then redirect (fst (findCaseInsensitivePath ext root
                                  (CleanPath ext (Path (URL request)))
                                  (RedirectTrailingSlash r)))
                   (redirectCode request) writer request
            else optionsOrNotAllowed ext r writer request
          else optionsOrNotAllowed ext r writer request)"
proof (cases "map_of (trees r) (Method request)")
  case None
  then show ?thesis by (simp add: routeRequest_def lookupResult_def)
next
  case (Some root)
  obtain h ps tsr where gv: "getValue ext root (Path (URL request)) True = (h, ps, tsr)"
    by (cases "getValue ext root (Path (URL request)) True") auto
  obtain fp found where fc:
    "findCaseInsensitivePath ext root (CleanPath ext (Path (URL request)))
       (RedirectTrailingSlash r) = (fp, found)"
    by (cases "findCaseInsensitivePath ext root (CleanPath ext (Path (URL request)))
        (RedirectTrailingSlash r)") auto
  show ?thesis
  proof (cases h)
    case None
    with Some gv fc show ?thesis
      by (cases found)
         (simp_all add: routeRequest_def lookupResult_def redirectable_def Let_def)
  next
    case (Some handle)
    with \<open>map_of (trees r) (Method request) = Some root\<close> gv show ?thesis
      by (simp add: routeRequest_def lookupResult_def)
  qed
qed

text \<open>
  The blocks of the code do the operations that the branches are said to do, and the Allow
  string the code computes is the one the branches are said to use.
\<close>

lemma allowed_Allow_string: "allowed ext r path m = Allow_string ext r path m"
  by (simp add: allowed_def Allow_string_def Allow_header_def allowed_join_sort
      allowed_all_filter allowed_at_filter)

lemma toggleTrailingSlash_slash_toggled: "toggleTrailingSlash path = slash_toggled path"
proof (cases "path = []")
  case True
  then show ?thesis by (simp add: toggleTrailingSlash_def slash_toggled_def)
next
  case False
  then have "last path = path ! (length path - 1)" "butlast path = take (length path - 1) path"
    by (simp_all add: last_conv_nth butlast_conv_take)
  then show ?thesis by (simp add: toggleTrailingSlash_def slash_toggled_def)
qed

lemma redirect_event:
  "redirect path (redirectCode request) writer request =
     ([HttpRedirect writer request ((URL request)\<lparr>Path := path\<rparr>) (redirect_status request)], None)"
  by (simp add: redirect_def redirectCode_def redirect_status_def emit_def)

lemma invokeHandle_action:
  "invokeHandle handle psPtr writer request =
     (case psPtr of
        Some (p # ps) \<Rightarrow> handle writer (request\<lparr>ctx_params := Some (p # ps)\<rparr>) psPtr
      | _ \<Rightarrow> handle writer request psPtr)"
  by (simp add: invokeHandle_def Let_def split: option.splits list.splits)

lemma seq_emit: "seq (emit e) out = preceded_by e out" "seq ([e], None) out = preceded_by e out"
  by (cases out; simp add: seq_def emit_def preceded_by_def)+

lemma defaultErrorHandler_405:
  "defaultErrorHandler writer request StatusMethodNotAllowed =
     plain_reply writer request 405 ''Method Not Allowed''"
  by (simp add: defaultErrorHandler_def plain_reply_def emit_def StatusText_def)

lemma defaultErrorHandler_404:
  "defaultErrorHandler writer request StatusNotFound = plain_reply writer request 404 ''Not Found''"
  by (simp add: defaultErrorHandler_def plain_reply_def emit_def StatusText_def)

lemma replyOptions_action:
  "replyOptions r (allowed ext r (Path (URL request)) MethodOptions) writer request =
     terminal_action ext r AutoOPTIONS writer request"
  by (simp add: replyOptions_def seq_emit emit_def allowed_Allow_string split: option.splits)

lemma replyMethodNotAllowed_action:
  "replyMethodNotAllowed r (allowed ext r (Path (URL request)) (Method request)) writer request =
     terminal_action ext r MethodNotAllowed405 writer request"
  by (simp add: replyMethodNotAllowed_def seq_emit allowed_Allow_string defaultErrorHandler_405
      split: option.splits)

lemma serveUnmatched_action:
  "serveUnmatched ext r writer request = terminal_action ext r Fallback writer request"
  by (simp add: serveUnmatched_def defaultErrorHandler_404 split: option.splits)

lemma optionsOrNotAllowed_branches:
  "optionsOrNotAllowed ext r writer request =
     (if resolves ext r request AutoOPTIONS
      then terminal_action ext r AutoOPTIONS writer request
      else if resolves ext r request MethodNotAllowed405
      then terminal_action ext r MethodNotAllowed405 writer request
      else terminal_action ext r Fallback writer request)"
proof -
  have 1: "optionsOrNotAllowed ext r writer request =
     (if Method request = MethodOptions \<and> HandleOPTIONS r then
        if allowed ext r (Path (URL request)) MethodOptions \<noteq> []
        then replyOptions r (allowed ext r (Path (URL request)) MethodOptions) writer request
        else serveUnmatched ext r writer request
      else if HandleMethodNotAllowed r then
        if allowed ext r (Path (URL request)) (Method request) \<noteq> []
        then replyMethodNotAllowed r (allowed ext r (Path (URL request)) (Method request))
               writer request
        else serveUnmatched ext r writer request
      else serveUnmatched ext r writer request)"
    by (simp add: optionsOrNotAllowed_def Let_def)
  show ?thesis
    unfolding 1 replyOptions_action replyMethodNotAllowed_action serveUnmatched_action
    by (auto simp: allowed_Allow_string)
qed

text \<open>The first branch that resolves, and the code's choice.\<close>

lemma first_resolving_cases:
  "first_resolving ext r request =
     (if resolves ext r request ExactMatch then Some ExactMatch
      else if resolves ext r request TrailingSlashRedirect then Some TrailingSlashRedirect
      else if resolves ext r request FixedPathRedirect then Some FixedPathRedirect
      else if resolves ext r request AutoOPTIONS then Some AutoOPTIONS
      else if resolves ext r request MethodNotAllowed405 then Some MethodNotAllowed405
      else Some Fallback)"
  by (simp add: first_resolving_def dispatch_order_def)

lemma routeRequest_first_resolving:
  "\<exists>b. first_resolving ext r request = Some b
        \<and> routeRequest ext r writer request = terminal_action ext r b writer request"
proof (cases "lookupResult ext r request")
  case None
  then have "\<not> resolves ext r request ExactMatch"
    "\<not> resolves ext r request TrailingSlashRedirect"
    "\<not> resolves ext r request FixedPathRedirect" by simp_all
  moreover from None
  have "routeRequest ext r writer request = optionsOrNotAllowed ext r writer request"
    by (simp add: routeRequest_lookup)
  ultimately show ?thesis
    unfolding first_resolving_cases optionsOrNotAllowed_branches
    by (simp del: terminal_action.simps resolves.simps)
next
  case (Some res)
  then obtain root h ps tsr where res: "lookupResult ext r request = Some (root, h, ps, tsr)"
    by (cases res) auto
  show ?thesis
  proof (cases h)
    case (Some handle)
    with res have "resolves ext r request ExactMatch" by simp
    moreover from res Some
    have "routeRequest ext r writer request = terminal_action ext r ExactMatch writer request"
      by (simp add: routeRequest_lookup invokeHandle_action)
    ultimately show ?thesis
      unfolding first_resolving_cases by (simp del: terminal_action.simps resolves.simps)
  next
    case None
    with res have ne: "\<not> resolves ext r request ExactMatch" by simp
    show ?thesis
    proof (cases "resolves ext r request TrailingSlashRedirect")
      case True
      with res None
      have "routeRequest ext r writer request =
              terminal_action ext r TrailingSlashRedirect writer request"
        by (simp add: routeRequest_lookup redirect_event toggleTrailingSlash_slash_toggled)
      with ne True show ?thesis
        unfolding first_resolving_cases by (simp del: terminal_action.simps resolves.simps)
    next
      case nt: False
      show ?thesis
      proof (cases "resolves ext r request FixedPathRedirect")
        case True
        with res None nt
        have "routeRequest ext r writer request =
                terminal_action ext r FixedPathRedirect writer request"
          by (auto simp: routeRequest_lookup redirect_event)
        with ne nt True show ?thesis
          unfolding first_resolving_cases by (simp del: terminal_action.simps resolves.simps)
      next
        case False
        with res None nt
        have "routeRequest ext r writer request = optionsOrNotAllowed ext r writer request"
          by (auto simp: routeRequest_lookup)
        with ne nt False show ?thesis
          unfolding first_resolving_cases optionsOrNotAllowed_branches
    by (simp del: terminal_action.simps resolves.simps)
      qed
    qed
  qed
qed

lemma first_resolving_first:
  "first_resolving ext r request = Some b \<Longrightarrow>
     resolves ext r request b \<and>
     (\<forall>b' \<in> set (takeWhile (\<lambda>x. x \<noteq> b) dispatch_order). \<not> resolves ext r request b')"
  unfolding first_resolving_cases dispatch_order_def
  by (cases b) (simp_all split: if_splits)

lemma core_outcome:
  "coreRoutingAndHandling ext r w req writer request =
     (fst (routeRequest ext r writer request) @
        (if lookupParams ext r request \<noteq> None then [PutParams] else []),
      snd (routeRequest ext r writer request))"
  by (simp add: coreRoutingAndHandling_def recv_def Let_def split: prod.splits)

text \<open>
  Claim C2. For every request the body of the core handler does what exactly one branch
  does: the first branch, in the order exact match, trailing-slash redirect, fixed-path
  redirect, automatic OPTIONS, 405, fallback, whose condition holds. Such a branch always
  exists (the fallback resolves always), its own condition holds, and the condition of no
  branch before it does. What the branch does is its terminal action, written out in
  \<open>terminal_action\<close>: the call of the handle, the redirect, the Allow header followed by the
  reply, or the fallback. The core handler as a whole does that action and then hands the
  parameter buffer back.
\<close>

theorem C2_dispatch_order:
  "(\<exists>b. first_resolving ext r request = Some b
        \<and> routeRequest ext r writer request = terminal_action ext r b writer request
        \<and> coreRoutingAndHandling ext r w req writer request =
            (fst (terminal_action ext r b writer request) @
               (if lookupParams ext r request \<noteq> None then [PutParams] else []),
             snd (terminal_action ext r b writer request)))
   \<and> (first_resolving ext r request = Some b \<longrightarrow>
        resolves ext r request b \<and>
        (\<forall>b' \<in> set (takeWhile (\<lambda>x. x \<noteq> b) dispatch_order). \<not> resolves ext r request b'))"
proof
  from routeRequest_first_resolving [of ext r request writer]
  obtain b0 where b0: "first_resolving ext r request = Some b0"
      "routeRequest ext r writer request = terminal_action ext r b0 writer request"
    by blast
  from b0(2) have "coreRoutingAndHandling ext r w req writer request =
            (fst (terminal_action ext r b0 writer request) @
               (if lookupParams ext r request \<noteq> None then [PutParams] else []),
             snd (terminal_action ext r b0 writer request))"
    by (simp only: core_outcome)
  with b0 show "\<exists>b. first_resolving ext r request = Some b
        \<and> routeRequest ext r writer request = terminal_action ext r b writer request
        \<and> coreRoutingAndHandling ext r w req writer request =
            (fst (terminal_action ext r b writer request) @
               (if lookupParams ext r request \<noteq> None then [PutParams] else []),
             snd (terminal_action ext r b writer request))"
    by blast
next
  show "first_resolving ext r request = Some b \<longrightarrow>
        resolves ext r request b \<and>
        (\<forall>b' \<in> set (takeWhile (\<lambda>x. x \<noteq> b) dispatch_order). \<not> resolves ext r request b')"
    using first_resolving_first [of ext r request b] by blast
qed

lemmas eval_spec = Allow_string_def Allow_header_def routed_methods_def first_resolving_def
  dispatch_order_def redirect_status_def slash_toggled_def preceded_by_def plain_reply_def

text \<open>
  One request for each branch. With GET \<^verbatim>\<open>/x\<close> registered: GET \<^verbatim>\<open>/x\<close> calls the handle,
  OPTIONS \<^verbatim>\<open>/x\<close> gets the Allow header and status 200, DELETE \<^verbatim>\<open>/x\<close> the Allow header and
  405, and GET \<^verbatim>\<open>/nothing\<close> the reply 404. With GET \<^verbatim>\<open>/foo\<close> registered, GET \<^verbatim>\<open>/foo/\<close> is
  redirected to \<^verbatim>\<open>/foo\<close>; with POST \<^verbatim>\<open>/Docs\<close> registered, POST \<^verbatim>\<open>/docs\<close> is redirected to
  \<^verbatim>\<open>/Docs\<close>.
\<close>

theorem C2_dispatch_order_witness:
  "first_resolving routes_ext x_router (request_for ''GET'' ''/x'' False) = Some ExactMatch
   \<and> routeRequest routes_ext x_router 0 (request_for ''GET'' ''/x'' False) = ([Note ''x''], None)
   \<and> first_resolving routes_ext foo_router (request_for ''GET'' ''/foo/'' False)
       = Some TrailingSlashRedirect
   \<and> routeRequest routes_ext foo_router 0 (request_for ''GET'' ''/foo/'' False) =
       ([HttpRedirect 0 (request_for ''GET'' ''/foo/'' False)
           \<lparr>Path = ''/foo'', RawQuery = ''page=2'', Fragment = []\<rparr> 301], None)
   \<and> first_resolving routes_ext docs_router (request_for ''POST'' ''/docs'' False)
       = Some FixedPathRedirect
   \<and> routeRequest routes_ext docs_router 0 (request_for ''POST'' ''/docs'' False) =
       ([HttpRedirect 0 (request_for ''POST'' ''/docs'' False)
           \<lparr>Path = ''/Docs'', RawQuery = ''page=2'', Fragment = []\<rparr> 308], None)
   \<and> first_resolving routes_ext x_router (request_for ''OPTIONS'' ''/x'' False) = Some AutoOPTIONS
   \<and> routeRequest routes_ext x_router 0 (request_for ''OPTIONS'' ''/x'' False) =
       ([HeaderSet 0 ''Allow'' ''GET, OPTIONS'', WriteHeader 0 200], None)
   \<and> first_resolving routes_ext x_router (request_for ''DELETE'' ''/x'' False)
       = Some MethodNotAllowed405
   \<and> routeRequest routes_ext x_router 0 (request_for ''DELETE'' ''/x'' False) =
       ([HeaderSet 0 ''Allow'' ''GET, OPTIONS'', HttpError 0 ''Method Not Allowed'' 405], None)
   \<and> first_resolving routes_ext x_router (request_for ''GET'' ''/nothing'' False) = Some Fallback
   \<and> routeRequest routes_ext x_router 0 (request_for ''GET'' ''/nothing'' False) =
       ([HttpError 0 ''Not Found'' 404], None)"
  using C2_dispatch_order [where ext=routes_ext and r=x_router
      and request="request_for ''GET'' ''/x'' False" and writer=0 and b=ExactMatch
      and w=0 and req="request_for ''GET'' ''/x'' False"]
    C2_dispatch_order [where ext=routes_ext and r=foo_router
      and request="request_for ''GET'' ''/foo/'' False" and writer=0 and b=TrailingSlashRedirect
      and w=0 and req="request_for ''GET'' ''/foo/'' False"]
    C2_dispatch_order [where ext=routes_ext and r=docs_router
      and request="request_for ''POST'' ''/docs'' False" and writer=0 and b=FixedPathRedirect
      and w=0 and req="request_for ''POST'' ''/docs'' False"]
    C2_dispatch_order [where ext=routes_ext and r=x_router
      and request="request_for ''OPTIONS'' ''/x'' False" and writer=0 and b=AutoOPTIONS
      and w=0 and req="request_for ''OPTIONS'' ''/x'' False"]
    C2_dispatch_order [where ext=routes_ext and r=x_router
      and request="request_for ''DELETE'' ''/x'' False" and writer=0 and b=MethodNotAllowed405
      and w=0 and req="request_for ''DELETE'' ''/x'' False"]
    C2_dispatch_order [where ext=routes_ext and r=x_router
      and request="request_for ''GET'' ''/nothing'' False" and writer=0 and b=Fallback
      and w=0 and req="request_for ''GET'' ''/nothing'' False"]
  by (simp add: x_router_eval foo_router_eval docs_router_eval eval_serve eval_spec)

subsection \<open>Redirects\<close>

text \<open>
  Claim C1, as amended. A request that the trailing-slash branch or the fixed-path branch
  answers is redirected with status 301 when its method is GET and with status 308 for every
  other method, HEAD included; the redirect goes to the URL of the request with only its
  path replaced, by the path with its final slash toggled or by the path the
  case-insensitive search returned.
\<close>

theorem C1_redirect_status:
  "(lookupResult ext r request = Some (root, None, psPtr, tsr) \<and> redirectable request \<and>
      tsr \<and> RedirectTrailingSlash r \<longrightarrow>
      routeRequest ext r writer request =
        ([HttpRedirect writer request
            ((URL request)\<lparr>Path := toggleTrailingSlash (Path (URL request))\<rparr>)
            (if Method request = MethodGet then StatusMovedPermanently
             else StatusPermanentRedirect)], None))
   \<and> (lookupResult ext r request = Some (root, None, psPtr, tsr) \<and> redirectable request \<and>
      \<not> (tsr \<and> RedirectTrailingSlash r) \<and> RedirectFixedPath r \<and>
      findCaseInsensitivePath ext root (CleanPath ext (Path (URL request)))
        (RedirectTrailingSlash r) = (fixedPath, True) \<longrightarrow>
      routeRequest ext r writer request =
        ([HttpRedirect writer request ((URL request)\<lparr>Path := fixedPath\<rparr>)
            (if Method request = MethodGet then StatusMovedPermanently
             else StatusPermanentRedirect)], None))"
  by (simp add: routeRequest_lookup redirect_def redirectCode_def emit_def)

text \<open>
  GET \<^verbatim>\<open>/foo/\<close> where GET \<^verbatim>\<open>/foo\<close> is registered is redirected to \<^verbatim>\<open>/foo\<close> with 301; POST
  \<^verbatim>\<open>/docs\<close> where POST \<^verbatim>\<open>/Docs\<close> is registered is redirected to \<^verbatim>\<open>/Docs\<close> with 308. The
  query of the request is kept.
\<close>

theorem C1_redirect_status_witness:
  "routeRequest routes_ext foo_router 0 (request_for ''GET'' ''/foo/'' False) =
     ([HttpRedirect 0 (request_for ''GET'' ''/foo/'' False)
         \<lparr>Path = ''/foo'', RawQuery = ''page=2'', Fragment = []\<rparr> StatusMovedPermanently], None)
   \<and> routeRequest routes_ext docs_router 0 (request_for ''POST'' ''/docs'' False) =
     ([HttpRedirect 0 (request_for ''POST'' ''/docs'' False)
         \<lparr>Path = ''/Docs'', RawQuery = ''page=2'', Fragment = []\<rparr> StatusPermanentRedirect], None)"
  using C1_redirect_status [where ext=routes_ext and r=foo_router
      and request="request_for ''GET'' ''/foo/'' False" and root="[(''/foo'', noting ''foo'')]"
      and psPtr=None and tsr=True and writer=0 and fixedPath="[]"]
    C1_redirect_status [where ext=routes_ext and r=docs_router
      and request="request_for ''POST'' ''/docs'' False" and root="[(''/Docs'', noting ''docs'')]"
      and psPtr=None and tsr=False and writer=0 and fixedPath="''/Docs''"]
  by (simp add: foo_router_eval docs_router_eval New_def lookupResult_def routes_getValue_def
      routes_find_def request_for_def redirectable_def toggleTrailingSlash_def lower_char_def)

text \<open>
  Claim C1 as stated fails for HEAD, a read method: with HEAD \<^verbatim>\<open>/foo\<close> registered, the
  request HEAD \<^verbatim>\<open>/foo/\<close> is redirected to \<^verbatim>\<open>/foo\<close> with status 308, not 301.
\<close>

theorem C1_HEAD_redirect_counterexample:
  "ServeHTTP routes_ext head_router 0 (request_for ''HEAD'' ''/foo/'' False) =
     ([HttpRedirect 0 (request_for ''HEAD'' ''/foo/'' False)
         \<lparr>Path = ''/foo'', RawQuery = ''page=2'', Fragment = []\<rparr> StatusPermanentRedirect], None)
   \<and> ServeHTTP routes_ext head_router 0 (request_for ''HEAD'' ''/foo/'' False) \<noteq>
     ([HttpRedirect 0 (request_for ''HEAD'' ''/foo/'' False)
         \<lparr>Path = ''/foo'', RawQuery = ''page=2'', Fragment = []\<rparr> StatusMovedPermanently], None)"
  by (simp add: head_router_eval eval_serve)

text \<open>
  Claim C8. When the tree of the request's method has no handle for the path and the method
  is CONNECT or the path is \<^verbatim>\<open>/\<close>, the body of the core handler is the automatic OPTIONS,
  405 and fallback part, whatever the lookup recommends and whatever the redirect policies
  are: neither redirect branch (nor the exact match) is the one that resolves.
\<close>

theorem C8_no_redirect:
  "lookupResult ext r request = Some (root, None, psPtr, tsr) \<and>
   (Method request = MethodConnect \<or> Path (URL request) = ''/'') \<longrightarrow>
     routeRequest ext r writer request = optionsOrNotAllowed ext r writer request
     \<and> first_resolving ext r request \<notin>
         {Some ExactMatch, Some TrailingSlashRedirect, Some FixedPathRedirect}"
proof
  assume a: "lookupResult ext r request = Some (root, None, psPtr, tsr) \<and>
   (Method request = MethodConnect \<or> Path (URL request) = ''/'')"
  then have nr: "\<not> redirectable request" by (auto simp: redirectable_def)
  from a nr
  have 1: "routeRequest ext r writer request = optionsOrNotAllowed ext r writer request"
    by (simp add: routeRequest_lookup)
  from a nr have "\<not> resolves ext r request ExactMatch"
    "\<not> resolves ext r request TrailingSlashRedirect"
    "\<not> resolves ext r request FixedPathRedirect" by simp_all
  then have "first_resolving ext r request =
      find (resolves ext r request) [AutoOPTIONS, MethodNotAllowed405, Fallback]"
    by (simp add: first_resolving_def dispatch_order_def)
  then have 2: "first_resolving ext r request \<notin>
         {Some ExactMatch, Some TrailingSlashRedirect, Some FixedPathRedirect}"
    by simp
  from 1 2 show "routeRequest ext r writer request = optionsOrNotAllowed ext r writer request
     \<and> first_resolving ext r request \<notin>
         {Some ExactMatch, Some TrailingSlashRedirect, Some FixedPathRedirect}" ..
qed

text \<open>
  With CONNECT \<^verbatim>\<open>/foo\<close> registered and both redirect policies enabled, the lookup of
  CONNECT \<^verbatim>\<open>/foo/\<close> recommends the trailing-slash redirect, and the request is answered 404
  by the fallback.
\<close>

theorem C8_no_redirect_witness:
  "lookupResult routes_ext connect_router (request_for ''CONNECT'' ''/foo/'' False) =
     Some ([(''/foo'', noting ''tunnel'')], None, None, True)
   \<and> RedirectTrailingSlash connect_router \<and> RedirectFixedPath connect_router
   \<and> routeRequest routes_ext connect_router 0 (request_for ''CONNECT'' ''/foo/'' False) =
       ([HttpError 0 ''Not Found'' StatusNotFound], None)
   \<and> first_resolving routes_ext connect_router (request_for ''CONNECT'' ''/foo/'' False)
       = Some Fallback"
  using C8_no_redirect [where ext=routes_ext and r=connect_router
      and request="request_for ''CONNECT'' ''/foo/'' False"
      and root="[(''/foo'', noting ''tunnel'')]" and psPtr=None and tsr=True and writer=0]
  by (simp add: connect_router_eval eval_serve eval_spec)

subsection \<open>The Allow header of a path\<close>

lemma only_GET_x_registered:
  assumes "trees r = [(MethodGet, root)]" "fst (getValue ext root ''/x'' False) \<noteq> None"
    "HandleOPTIONS r" "HandleMethodNotAllowed r" "MethodNotAllowed r = None"
    "errorHandler r = Some defaultErrorHandler" "Middlewares r = []"
    "Method req = MethodDelete" "Path (URL req) = ''/x''" "\<not> ctx_done req"
  shows "ServeHTTP ext r w req =
    ([HeaderSet w ''Allow'' ''GET, OPTIONS'',
      HttpError w ''Method Not Allowed'' StatusMethodNotAllowed], None)"
proof -
  have rm: "routed_methods ext ''/x'' MethodDelete (trees r) = [MethodGet]"
    using assms(1,2) by (simp add: routed_methods_def)
  have al: "allowed ext r ''/x'' MethodDelete = ''GET, OPTIONS''"
    using assms(3) by (simp add: allowed_path rm)
  have "routeRequest ext r w req =
    ([HeaderSet w ''Allow'' ''GET, OPTIONS'',
      HttpError w ''Method Not Allowed'' StatusMethodNotAllowed], None)"
    using assms al
    by (simp add: routeRequest_def optionsOrNotAllowed_def replyMethodNotAllowed_def
        defaultErrorHandler_def seq_def emit_def StatusText_def)
  moreover have "lookupParams ext r req = None"
    using assms by (simp add: lookupParams_def)
  ultimately show ?thesis
    using assms(7)
    by (simp add: ServeHTTP_def applyMiddleware_def coreRoutingAndHandling_def recv_def)
qed

text \<open>
  Claim C3, as amended. For a path other than \<^verbatim>\<open>*\<close> at which at least one method other
  than the request's and other than OPTIONS has a route, the Allow string is those methods,
  with OPTIONS added when auto-OPTIONS is enabled, sorted in ascending lexicographic order
  and joined by a comma and a space; the request's method is not among the enumerated
  methods, and a route registered for OPTIONS does not count. In particular, when only GET
  \<^verbatim>\<open>/x\<close> is registered and auto-OPTIONS and method-not-allowed are enabled with the default
  responders, DELETE \<^verbatim>\<open>/x\<close> is answered with the header \<^verbatim>\<open>Allow: GET, OPTIONS\<close> and
  status 405.
\<close>

theorem C3_Allow_header:
  "(path \<noteq> ''*'' \<and> routed_methods ext path reqMethod (trees r) \<noteq> [] \<longrightarrow>
      allowed ext r path reqMethod =
        Join (sort (routed_methods ext path reqMethod (trees r) @
                    (if HandleOPTIONS r then [MethodOptions] else []))) '', ''
      \<and> reqMethod \<notin> set (routed_methods ext path reqMethod (trees r)))
   \<and> (trees r = [(MethodGet, root)] \<and> fst (getValue ext root ''/x'' False) \<noteq> None \<and>
       HandleOPTIONS r \<and> HandleMethodNotAllowed r \<and> MethodNotAllowed r = None \<and>
       errorHandler r = Some defaultErrorHandler \<and> Middlewares r = [] \<and>
       Method req = MethodDelete \<and> Path (URL req) = ''/x'' \<and> \<not> ctx_done req \<longrightarrow>
       ServeHTTP ext r w req =
         ([HeaderSet w ''Allow'' ''GET, OPTIONS'',
           HttpError w ''Method Not Allowed'' StatusMethodNotAllowed], None))"
proof (intro conjI impI)
  assume "path \<noteq> ''*'' \<and> routed_methods ext path reqMethod (trees r) \<noteq> []"
  then show "allowed ext r path reqMethod =
        Join (sort (routed_methods ext path reqMethod (trees r) @
                    (if HandleOPTIONS r then [MethodOptions] else []))) '', ''"
    by (simp add: allowed_path Let_def)
next
  show "reqMethod \<notin> set (routed_methods ext path reqMethod (trees r))"
    by (rule routed_methods_excludes)
next
  assume "trees r = [(MethodGet, root)] \<and> fst (getValue ext root ''/x'' False) \<noteq> None \<and>
       HandleOPTIONS r \<and> HandleMethodNotAllowed r \<and> MethodNotAllowed r = None \<and>
       errorHandler r = Some defaultErrorHandler \<and> Middlewares r = [] \<and>
       Method req = MethodDelete \<and> Path (URL req) = ''/x'' \<and> \<not> ctx_done req"
  then show "ServeHTTP ext r w req =
         ([HeaderSet w ''Allow'' ''GET, OPTIONS'',
           HttpError w ''Method Not Allowed'' StatusMethodNotAllowed], None)"
    using only_GET_x_registered [of r root ext req w] by blast
qed

text \<open>The router built by registering GET \<^verbatim>\<open>/x\<close> on a new router, asked for DELETE \<^verbatim>\<open>/x\<close>.\<close>

theorem C3_Allow_header_witness:
  "allowed routes_ext x_router ''/x'' ''DELETE'' = ''GET, OPTIONS''
   \<and> ServeHTTP routes_ext x_router 0 (request_for ''DELETE'' ''/x'' False) =
       ([HeaderSet 0 ''Allow'' ''GET, OPTIONS'',
         HttpError 0 ''Method Not Allowed'' StatusMethodNotAllowed], None)"
  using C3_Allow_header [where ext=routes_ext and r=x_router and path="''/x''"
      and reqMethod="''DELETE''" and root="[(''/x'', noting ''x'')]"
      and req="request_for ''DELETE'' ''/x'' False" and w=0]
  by (simp add: x_router_eval New_def routed_methods_def routes_getValue_def request_for_def)

text \<open>
  Claim C3 as stated fails at a path whose only other registered method is OPTIONS. With
  only OPTIONS \<^verbatim>\<open>/x\<close> registered and auto-OPTIONS enabled, the request DELETE \<^verbatim>\<open>/x\<close> finds
  another method registered at the path, but the loop of \<open>allowed\<close> skips OPTIONS: no method
  is enumerated, the Allow string is empty and not \<^verbatim>\<open>OPTIONS\<close>, and the reply is 404.
\<close>

lemma options_router_eval:
  "options_router = New\<lparr>trees := [(''OPTIONS'', [(''/x'', noting ''x'')])]\<rparr>"
  by (simp add: options_router_def eval_Handle)

theorem C3_only_OPTIONS_counterexample:
  "HandleOPTIONS options_router
   \<and> fst (getValue routes_ext [(''/x'', noting ''x'')] ''/x'' False) \<noteq> (None :: string Handle option)
   \<and> map fst (trees options_router) = [''OPTIONS'']
   \<and> allowed routes_ext options_router ''/x'' ''DELETE'' = []
   \<and> allowed routes_ext options_router ''/x'' ''DELETE'' \<noteq> ''OPTIONS''
   \<and> ServeHTTP routes_ext options_router 0 (request_for ''DELETE'' ''/x'' False) =
       ([HttpError 0 ''Not Found'' StatusNotFound], None)"
  by (simp add: options_router_eval eval_serve)

subsection \<open>A panic of the body\<close>

lemma handle_panic_is_body_panic:
  "lookupResult ext r request = Some (root, Some handle, psPtr, tsr) \<Longrightarrow>
   invokeHandle handle psPtr writer request = (es, Some v) \<Longrightarrow>
   routeRequest ext r writer request = (es, Some v)"
  by (simp add: routeRequest_lookup)

lemma core_keeps_panic:
  "routeRequest ext r writer request = (es, Some v) \<Longrightarrow>
   coreRoutingAndHandling ext r w req writer request =
     (es @ (if lookupParams ext r request \<noteq> None then [PutParams] else []), Some v)"
  by (simp add: core_outcome)

lemma ServeHTTP_no_middleware:
  "Middlewares r = [] \<Longrightarrow> ServeHTTP ext r w req = coreRoutingAndHandling ext r w req w req"
  by (simp add: ServeHTTP_def applyMiddleware_def)

text \<open>
  Claim C4 says that a panic raised by the matched handle or within the decision logic is
  recovered at the router's boundary, handed to the recovery handler when one is set, and
  answered with a 500 response otherwise, so that it never leaves \<open>ServeHTTP\<close>. The code
  does not do this. \<open>ServeHTTP\<close> defers a closure that calls \<open>recv\<close>, and \<^verbatim>\<open>recover()\<close>, called
  in \<open>recv\<close> and not in the deferred closure itself, returns nil. So a panic of the matched
  handle is a panic of the body, and a panic of the body leaves the core handler unrecovered
  once the parameter buffer was handed back: neither the recovery handler nor the error
  handler is called and nothing is written, whatever the router's configuration; without
  middleware it leaves \<open>ServeHTTP\<close>.
\<close>

theorem C4_panic_not_recovered:
  "(lookupResult ext r request = Some (root, Some handle, psPtr, tsr) \<and>
      invokeHandle handle psPtr writer request = (es, Some v) \<longrightarrow>
      routeRequest ext r writer request = (es, Some v))
   \<and> (routeRequest ext r writer request = (es, Some v) \<longrightarrow>
        coreRoutingAndHandling ext r w req writer request =
          (es @ (if lookupParams ext r request \<noteq> None then [PutParams] else []), Some v))
   \<and> (Middlewares r = [] \<longrightarrow> ServeHTTP ext r w req = coreRoutingAndHandling ext r w req w req)"
  using handle_panic_is_body_panic [where ext=ext and r=r and request=request and root=root
      and handle=handle and psPtr=psPtr and tsr=tsr and writer=writer and es=es and v=v]
    core_keeps_panic [where ext=ext and r=r and request=request and writer=writer and es=es
      and v=v and w=w and req=req]
    ServeHTTP_no_middleware [where ext=ext and r=r and w=w and req=req]
  by blast

text \<open>
  A handle that panics with \<^verbatim>\<open>boom\<close> after leaving its note, registered for GET \<^verbatim>\<open>/boom\<close>
  on a router that has a recovery handler, and a request GET \<^verbatim>\<open>/boom\<close> whose context is not
  done: the recovery handler leaves no note, no 500 response is written, and the panic
  leaves \<open>ServeHTTP\<close>.
\<close>

theorem C4_panic_not_recovered_witness:
  "RecoveryHandler recovering_router \<noteq> None
   \<and> ServeHTTP routes_ext recovering_router 0 (request_for ''GET'' ''/boom'' False) =
       ([Note ''handler ran''], Some ''boom'')"
  using C4_panic_not_recovered [where ext=routes_ext and r=recovering_router
      and request="request_for ''GET'' ''/boom'' False"
      and root="[(''/boom'', panicking ''handler ran'' ''boom'')]"
      and handle="panicking ''handler ran'' ''boom''" and psPtr=None and tsr=False and writer=0
      and es="[Note ''handler ran'']" and v="''boom''" and w=0
      and req="request_for ''GET'' ''/boom'' False"]
  by (simp add: recovering_router_def boom_router_eval New_def lookupResult_def lookupParams_def
      routes_getValue_def invokeHandle_def panicking_def request_for_def)

end
